theory Spec2Isabelle
  imports Main
begin

section \<open>JavaScript values\<close>

text \<open>
  Values that cross a JSON boundary (decrypted envelopes, remote responses, request bodies,
  credential payloads). A JavaScript \<open>undefined\<close> is \<open>None\<close> of \<open>json option\<close>.
  Numbers are the integers the services exchange (status codes, epoch seconds); a JSON
  number with a fraction is outside the model. Of a number the code observes whether it is
  zero, how it compares and, where it is used as a property key, its text.
  An object is the list of its own properties in insertion order, with distinct keys
  (JavaScript enumerates integer-like keys first; nothing below depends on the order).
\<close>

datatype json =
    JNull
  | JBool bool
  | JNum int
  | JStr string
  | JArr "json list"
  | JObj "(string \<times> json) list"

type_synonym obj = "(string \<times> json) list"

text \<open>A thrown exception, with its message.\<close>

datatype exn = Error string | TypeError string | SyntaxError string

fun message :: "exn \<Rightarrow> string" where
  "message (Error m) = m"
| "message (TypeError m) = m"
| "message (SyntaxError m) = m"

text \<open>Truthiness, as \<open>if (v)\<close>, \<open>!v\<close>, \<open>a || b\<close> and \<open>a && b\<close> read it.\<close>

fun truthy :: "json \<Rightarrow> bool" where
  "truthy JNull = False"
| "truthy (JBool b) = b"
| "truthy (JNum n) = (n \<noteq> 0)"
| "truthy (JStr s) = (s \<noteq> [])"
| "truthy (JArr _) = True"
| "truthy (JObj _) = True"

fun truthy_opt :: "json option \<Rightarrow> bool" where
  "truthy_opt None = False"
| "truthy_opt (Some v) = truthy v"

fun is_boolean :: "json \<Rightarrow> bool" where
  "is_boolean (JBool _) = True"
| "is_boolean _ = False"

fun isArray :: "json \<Rightarrow> bool" where
  "isArray (JArr _) = True"
| "isArray _ = False"

text \<open>
  \<open>v[k]\<close> and \<open>v.k\<close> for the data keys the services read (\<open>vp_token\<close>, \<open>predicates\<close>,
  \<open>issuer\<close>, ...): an own property of an object, \<open>undefined\<close> on every other non-null value.
  Reading a property of \<open>null\<close> throws; callers that can meet \<open>null\<close> test for it first.
\<close>

fun get_prop :: "json \<Rightarrow> string \<Rightarrow> json option" where
  "get_prop (JObj kvs) k = map_of kvs k"
| "get_prop _ k = None"

text \<open>Optional chaining \<open>v?.[k]\<close>: \<open>undefined\<close> when \<open>v\<close> is \<open>undefined\<close> or \<open>null\<close>.\<close>

fun opt_prop :: "json option \<Rightarrow> string \<Rightarrow> json option" where
  "opt_prop None k = None"
| "opt_prop (Some v) k = get_prop v k"

text \<open>Writing an own property: replaced in place when present, appended otherwise.\<close>

fun obj_put :: "obj \<Rightarrow> string \<Rightarrow> json \<Rightarrow> obj" where
  "obj_put [] k v = [(k, v)]"
| "obj_put ((k', v') # kvs) k v =
     (if k' = k then (k, v) # kvs else (k', v') # obj_put kvs k v)"

text \<open>
  \<open>o[k] = v\<close> on an object literal that inherits \<open>Object.prototype\<close>, for a primitive
  \<open>v\<close>: the key \<open>__proto__\<close> reaches the inherited setter, which ignores a value that is
  neither an object nor \<open>null\<close>, so no own property appears.
\<close>

definition assign_primitive :: "obj \<Rightarrow> string \<Rightarrow> json \<Rightarrow> obj" where
  "assign_primitive ob k v = (if k = ''__proto__'' then ob else obj_put ob k v)"

text \<open>Decimal rendering of an array index or a status code.\<close>

fun show_nat :: "nat \<Rightarrow> string" where
  "show_nat n =
     (if n < 10 then [''0123456789'' ! n]
      else show_nat (n div 10) @ [''0123456789'' ! (n mod 10)])"

declare show_nat.simps [simp del]

text \<open>
  \<open>Object.entries(v)\<close>: the own enumerable properties; index/element pairs of an array,
  index/character pairs of a string, nothing for a number or a boolean.
\<close>

fun entries :: "json \<Rightarrow> obj" where
  "entries (JObj kvs) = kvs"
| "entries (JArr xs) = map (\<lambda>i. (show_nat i, xs ! i)) [0..<length xs]"
| "entries (JStr s) = map (\<lambda>i. (show_nat i, JStr [s ! i])) [0..<length s]"
| "entries _ = []"



text \<open>\<open>s.split(c)\<close> for a one-character separator: never empty, \<open>[""]\<close> for the empty string.\<close>

fun split_on :: "char \<Rightarrow> string \<Rightarrow> string list" where
  "split_on c [] = [[]]"
| "split_on c (x # xs) =
     (if x = c then [] # split_on c xs
      else (case split_on c xs of
              p # ps \<Rightarrow> (x # p) # ps
            | [] \<Rightarrow> [[x]]))"

text \<open>\<open>xs.join(c)\<close>.\<close>

fun join_with :: "char \<Rightarrow> string list \<Rightarrow> string" where
  "join_with c [] = []"
| "join_with c [x] = x"
| "join_with c (x # y # ys) = x @ c # join_with c (y # ys)"

section \<open>Session transcript (verifier/sessionTranscript.js)\<close>

text \<open>
  The platform's digest (\<open>crypto.createHash('sha256')\<close>): the base64 digest of a text, and
  the message of the \<open>TypeError\<close> that \<open>update\<close> throws on a value that is not a string
  (\<open>The "data" argument must be of type string or an instance of Buffer, TypedArray, or
  DataView.\<close>, followed by a description of the value received).
\<close>

record digest_env =
  sha256_base64 :: "string \<Rightarrow> string"
  invalid_data_message :: "json \<Rightarrow> string"

text \<open>
  \<open>hashValue\<close>: \<open>null\<close> for a falsy value, otherwise the base64 SHA-256 digest of the text;
  \<open>update\<close> throws on a truthy value that is not a string.
\<close>

fun hashValue :: "digest_env \<Rightarrow> json \<Rightarrow> exn + json" where
  "hashValue platform (JStr s) =
     (if s = [] then Inr JNull else Inr (JStr (sha256_base64 platform s)))"
| "hashValue platform v =
     (if \<not> truthy v then Inr JNull
      else Inl (TypeError (invalid_data_message platform v)))"

definition buildSessionTranscript :: "digest_env \<Rightarrow> json \<Rightarrow> json \<Rightarrow> exn + json" where
  "buildSessionTranscript platform nonce audience =
     (case hashValue platform audience of
        Inl e \<Rightarrow> Inl e
      | Inr clientIdHash \<Rightarrow>
          (case hashValue platform nonce of
             Inl e \<Rightarrow> Inl e
           | Inr nonceHash \<Rightarrow>
               Inr (JArr [JNull, JNull,
                 JArr [JStr ''OpenID4VPDCAPIHandover'', clientIdHash, nonceHash, JNull]])))"

text \<open>
  \<open>validateSessionTranscript\<close> returns its verdict; the first component is what it wrote
  with \<open>console.warn\<close>.
\<close>

definition transcript_warning :: string where
  "transcript_warning = ''SessionTranscript: unexpected non-null values for web handover''"

fun validateSessionTranscript :: "json \<Rightarrow> string list \<times> bool" where
  "validateSessionTranscript (JArr [deviceEngagement, readerKey, handover]) =
     (let warned =
        (if deviceEngagement \<noteq> JNull \<or> readerKey \<noteq> JNull then [transcript_warning] else [])
      in if \<not> isArray handover then (warned, False) else (warned, True))"
| "validateSessionTranscript _ = ([], False)"

section \<open>Presentation verifier (verifier/verifyPresentation.js)\<close>

text \<open>\<open>a || b\<close> and \<open>a ?? b\<close> on possibly undefined values.\<close>

definition js_or :: "json option \<Rightarrow> json option \<Rightarrow> json option" where
  "js_or a b = (if truthy_opt a then a else b)"

fun or_default :: "json option \<Rightarrow> json \<Rightarrow> json" where
  "or_default (Some v) d = (if truthy v then v else d)"
| "or_default None d = d"

fun nullish_default :: "json option \<Rightarrow> json \<Rightarrow> json" where
  "nullish_default None d = d"
| "nullish_default (Some JNull) d = d"
| "nullish_default (Some v) d = v"

text \<open>\<open>Object.values(v)[0]\<close>.\<close>

definition first_value :: "json \<Rightarrow> json option" where
  "first_value v = (case entries v of [] \<Rightarrow> None | (k, x) # _ \<Rightarrow> Some x)"

text \<open>
  What \<open>fetch\<close> and the reading of its response come to: a 2xx response with its parsed
  body, any other response with its status and text, or an exception with its \<open>code\<close> and
  message.
\<close>

datatype fetch_outcome =
    Response_ok json
  | Response_not_ok nat string
  | Fetch_threw "string option" string

text \<open>
  The verifier's surroundings: decryption of the JWE with the reader key followed by
  \<open>JSON.parse\<close> of the plaintext (either may throw), the platform digest, the remote
  verifier answering a request body, the clock and the two random UUIDs a call may draw.
\<close>

record verifier_env =
  decrypt_envelope :: "string \<Rightarrow> exn + json"
  crypto :: digest_env
  post_verify :: "json \<Rightarrow> fetch_outcome"
  now_iso :: string
  uuid_nonce :: string
  uuid_session :: string

definition mockLongfellowResponse :: "verifier_env \<Rightarrow> json \<Rightarrow> json" where
  "mockLongfellowResponse env vpToken =
     JObj [(''valid'', JBool True),
           (''predicates'', JObj [(''org.iso.18013.5.1.age_over_21'', JBool True),
                                  (''org.iso.18013.5.1.not_expired'', JBool True)]),
           (''issuer'', JStr ''CA-DMV''),
           (''issuedAt'', JStr (now_iso env)),
           (''mock'', JBool True)]"

definition verifyWithLongfellow :: "verifier_env \<Rightarrow> json \<Rightarrow> json \<Rightarrow> json" where
  "verifyWithLongfellow env vpToken sessionTranscript =
     (case post_verify env (JObj [(''proof'', vpToken), (''sessionTranscript'', sessionTranscript)]) of
        Response_ok result \<Rightarrow> result
      | Response_not_ok status errorText \<Rightarrow>
          JObj [(''valid'', JBool False),
                (''error'', JStr (''Longfellow returned '' @ show_nat status @ '': '' @ errorText))]
      | Fetch_threw code msg \<Rightarrow>
          (if code = Some ''ECONNREFUSED'' then mockLongfellowResponse env vpToken
           else JObj [(''valid'', JBool False),
                      (''error'', JStr (''Failed to reach Longfellow: '' @ msg))]))"

text \<open>The loop of \<open>extractPredicates\<close> over \<open>Object.entries(longfellowResult.predicates)\<close>.\<close>

fun copy_booleans :: "obj \<Rightarrow> obj \<Rightarrow> obj" where
  "copy_booleans [] predicates = predicates"
| "copy_booleans ((key, val) # rest) predicates =
     copy_booleans rest
       (if is_boolean val then assign_primitive predicates key val else predicates)"

text \<open>
  \<open>extractPredicates\<close>, on a result that is not \<open>null\<close> (\<open>verifyPresentation\<close> has read its
  \<open>valid\<close> property before the call).
\<close>

definition extractPredicates :: "json \<Rightarrow> obj" where
  "extractPredicates longfellowResult =
     (let preds = get_prop longfellowResult ''predicates'';
          p0 = (case preds of
                  Some p \<Rightarrow> if truthy p then copy_booleans (entries p) [] else []
                | None \<Rightarrow> []);
          p1 = (if truthy_opt (opt_prop preds ''org.iso.18013.5.1.age_over_21'')
                then obj_put p0 ''over21'' (JBool True) else p0);
          p2 = (if truthy_opt (opt_prop preds ''org.iso.18013.5.1.age_over_18'')
                then obj_put p1 ''over18'' (JBool True) else p1);
          p3 = (case get_prop longfellowResult ''issuer'' of
                  Some issuerValue \<Rightarrow>
                    if truthy issuerValue then obj_put p2 ''issuerJurisdiction'' issuerValue
                    else p2
                | None \<Rightarrow> p2)
      in obj_put p3 ''notExpired''
           (JBool (opt_prop preds ''org.iso.18013.5.1.not_expired'' \<noteq> Some (JBool False))))"

definition invalid_result :: "json \<Rightarrow> json" where
  "invalid_result err = JObj [(''valid'', JBool False), (''error'', err)]"

definition extract_vp_token :: "json \<Rightarrow> json option" where
  "extract_vp_token envelope =
     (let vp = get_prop envelope ''vp_token''
      in js_or (opt_prop vp ''mdl'') (js_or vp (first_value (nullish_default vp (JObj [])))))"

text \<open>Steps 4 and 5 of \<open>verifyPresentation\<close>: the remote call and the reduction of its result.\<close>

definition verify_and_extract :: "verifier_env \<Rightarrow> json \<Rightarrow> json \<Rightarrow> json" where
  "verify_and_extract env vpToken sessionTranscript =
     (let longfellowResult = verifyWithLongfellow env vpToken sessionTranscript
      in (if longfellowResult = JNull
          then invalid_result (JStr ''Cannot read properties of null (reading 'valid')'')
          else (if \<not> truthy_opt (get_prop longfellowResult ''valid'')
                then invalid_result
                       (or_default (get_prop longfellowResult ''error'')
                          (JStr ''Longfellow verification failed''))
                else JObj [(''valid'', JBool True),
                           (''predicates'', JObj (extractPredicates longfellowResult)),
                           (''sessionId'', JStr (uuid_session env))])))"

definition verifyPresentation :: "verifier_env \<Rightarrow> string \<Rightarrow> json" where
  "verifyPresentation env jwe =
     (case decrypt_envelope env jwe of
        Inl e \<Rightarrow> invalid_result (JStr (message e))
      | Inr envelope \<Rightarrow>
          (if envelope = JNull
           then invalid_result (JStr ''Cannot read properties of null (reading 'vp_token')'')
           else (if \<not> truthy_opt (extract_vp_token envelope)
                 then invalid_result (JStr ''No vp_token found in decrypted envelope'')
                 else (case buildSessionTranscript (crypto env)
                              (or_default (get_prop envelope ''nonce'') (JStr (uuid_nonce env)))
                              (or_default (get_prop envelope ''aud'')
                                 (JStr ''https://verifier.example.com'')) of
                         Inl e \<Rightarrow> invalid_result (JStr (message e))
                       | Inr sessionTranscript \<Rightarrow>
                           verify_and_extract env
                             (or_default (extract_vp_token envelope) JNull)
                             sessionTranscript))))"

text \<open>
  A test double of the surroundings: the envelope decrypts to \<open>{"vp_token": "token"}\<close> and
  the remote verifier gives the same outcome to every request.
\<close>

definition fixture_verifier_env :: "fetch_outcome \<Rightarrow> verifier_env" where
  "fixture_verifier_env outcome =
     \<lparr> decrypt_envelope = (\<lambda>jwe. Inr (JObj [(''vp_token'', JStr ''token'')])),
       crypto =
         \<lparr> sha256_base64 = (\<lambda>s. s),
           invalid_data_message =
             (\<lambda>v. ''The \"data\" argument must be of type string or an instance of Buffer, ''
                  @ ''TypedArray, or DataView.'') \<rparr>,
       post_verify = (\<lambda>req. outcome),
       now_iso = ''2024-01-15T10:30:00.000Z'',
       uuid_nonce = ''nonce-uuid'',
       uuid_session = ''session-uuid'' \<rparr>"

text \<open>
  The entries the reduction may leave in \<open>predicates\<close>: a boolean, or the remote result's
  \<open>issuer\<close> value under the key \<open>issuerJurisdiction\<close>.
\<close>

definition minimal_entry :: "json \<Rightarrow> string \<times> json \<Rightarrow> bool" where
  "minimal_entry r e =
     (is_boolean (snd e) \<or> (fst e = ''issuerJurisdiction'' \<and> get_prop r ''issuer'' = Some (snd e)))"

text \<open>
  A genuine answer of the remote verifier with the predicates and the issuer of the
  synthetic one.
\<close>

definition genuine_result :: json where
  "genuine_result =
     JObj [(''valid'', JBool True),
           (''predicates'', JObj [(''org.iso.18013.5.1.age_over_21'', JBool True),
                                  (''org.iso.18013.5.1.not_expired'', JBool True)]),
           (''issuer'', JStr ''CA-DMV'')]"

section \<open>Trust list (trust/vicalFetcher.js)\<close>

text \<open>
  A certificate of the trust list. \<open>validFrom\<close> and \<open>validUntil\<close> are the instants
  \<open>new Date(cert.validFrom)\<close> and \<open>new Date(cert.validUntil)\<close> denote, in milliseconds;
  \<open>None\<close> is an Invalid Date.
\<close>

record certificate =
  kid :: string
  cert_type :: string
  algorithm :: string
  publicKey :: string
  validFrom :: "int option"
  validUntil :: "int option"

record jurisdiction =
  code :: string
  name :: string
  issuer :: string
  certificates :: "certificate list"

text \<open>The cached trust list; \<open>timestamp\<close> is the instant its ISO text denotes.\<close>

record vical_data =
  jurisdictions :: "jurisdiction list"
  timestamp :: "int option"
  version :: string

text \<open>
  What the request to the VICAL endpoint comes to: a 2xx response whose body parses (to
  \<open>null\<close>, or to a value with optional \<open>jurisdictions\<close> and \<open>version\<close>), another
  status, or an exception of \<open>fetch\<close> or of \<open>response.json()\<close>.
\<close>

record vical_body =
  body_jurisdictions :: "jurisdiction list option"
  body_version :: "string option"

datatype vical_outcome =
    Vical_ok "vical_body option"
  | Vical_not_ok nat
  | Vical_threw string

text \<open>
  The surroundings of the trust module: whether \<open>fs.mkdir\<close> of the cache directory throws
  (and with what message), whether the cache file can be written, the remote endpoint and
  the clock in milliseconds. The cache file itself is the state: \<open>None\<close> when it is
  missing or does not parse.
\<close>

record trust_env =
  mkdir_error :: "string option"
  write_ok :: bool
  vical_endpoint :: vical_outcome
  now_ms :: int

definition CACHE_TTL :: int where
  "CACHE_TTL = 24 * 60 * 60 * 1000"

definition mock_certificate :: "string \<Rightarrow> string \<Rightarrow> certificate" where
  "mock_certificate k pk =
     \<lparr> kid = k, cert_type = ''IACA'', algorithm = ''ES256'', publicKey = pk,
       validFrom = Some 1704067200000, validUntil = Some 1767225599000 \<rparr>"

definition mock_jurisdictions :: "jurisdiction list" where
  "mock_jurisdictions =
     [\<lparr> code = ''CA'', name = ''California'', issuer = ''CA-DMV'',
        certificates = [mock_certificate ''ca-dmv-2024-01'' ''mock-public-key-ca''] \<rparr>,
      \<lparr> code = ''NY'', name = ''New York'', issuer = ''NY-DMV'',
        certificates = [mock_certificate ''ny-dmv-2024-01'' ''mock-public-key-ny''] \<rparr>,
      \<lparr> code = ''FL'', name = ''Florida'', issuer = ''FL-DMV'',
        certificates = [mock_certificate ''fl-dmv-2024-01'' ''mock-public-key-fl''] \<rparr>]"

definition getMockVicalData :: "vical_body" where
  "getMockVicalData =
     \<lparr> body_jurisdictions = Some mock_jurisdictions, body_version = Some ''1.0'' \<rparr>"

text \<open>
  \<open>fetchVicalData\<close>: the parsed body of a 2xx response; the mock data after any other
  status or any exception.
\<close>

fun fetchVicalData :: "vical_outcome \<Rightarrow> vical_body option" where
  "fetchVicalData (Vical_ok body) = body"
| "fetchVicalData (Vical_not_ok status) = Some getMockVicalData"
| "fetchVicalData (Vical_threw msg) = Some getMockVicalData"

text \<open>\<open>isCacheExpired\<close>: a comparison with \<open>NaN\<close> is false.\<close>

fun isCacheExpired :: "int \<Rightarrow> int option \<Rightarrow> bool" where
  "isCacheExpired now (Some t) = (now - t > CACHE_TTL)"
| "isCacheExpired now None = False"

text \<open>The \<open>catch\<close> block of \<open>fetchVical\<close>.\<close>

fun stale_fallback :: "exn \<Rightarrow> vical_data option \<Rightarrow> exn + vical_data" where
  "stale_fallback e (Some cachedData) = Inr cachedData"
| "stale_fallback e None =
     Inl (Error (''VICAL fetch failed and no cache available: '' @ message e))"

text \<open>The body of the \<open>try\<close> block once the cache is missing or expired.\<close>

definition refresh_vical :: "trust_env \<Rightarrow> vical_data option \<Rightarrow> (exn + vical_data) \<times> vical_data option" where
  "refresh_vical env cache =
     (case fetchVicalData (vical_endpoint env) of
        None \<Rightarrow>
          (stale_fallback
             (TypeError ''Cannot read properties of null (reading 'jurisdictions')'') cache,
           cache)
      | Some response \<Rightarrow>
          (let vicalData =
             \<lparr> jurisdictions =
                 (case body_jurisdictions response of Some js \<Rightarrow> js | None \<Rightarrow> []),
               timestamp = Some (now_ms env),
               version =
                 (case body_version response of
                    Some v \<Rightarrow> if v \<noteq> [] then v else ''1.0''
                  | None \<Rightarrow> ''1.0'') \<rparr>
           in (Inr vicalData, if write_ok env then Some vicalData else cache)))"

text \<open>\<open>fetchVical\<close> returns its result (or the exception it throws) and the cache file.\<close>

definition fetchVical :: "trust_env \<Rightarrow> vical_data option \<Rightarrow> (exn + vical_data) \<times> vical_data option" where
  "fetchVical env cache =
     (case mkdir_error env of
        Some msg \<Rightarrow> (stale_fallback (Error msg) cache, cache)
      | None \<Rightarrow>
          (case cache of
             Some cachedData \<Rightarrow>
               (if \<not> isCacheExpired (now_ms env) (timestamp cachedData)
                then (Inr cachedData, cache)
                else refresh_vical env cache)
           | None \<Rightarrow> refresh_vical env cache))"


section \<open>Issuer pinning (trust/issuerPinning.js)\<close>







text \<open>Test doubles: a trust environment and a stale cache.\<close>

definition fixture_trust_env :: "vical_outcome \<Rightarrow> int \<Rightarrow> trust_env" where
  "fixture_trust_env outcome t =
     \<lparr> mkdir_error = None, write_ok = True, vical_endpoint = outcome, now_ms = t \<rparr>"

definition stale_cache :: vical_data where
  "stale_cache =
     \<lparr> jurisdictions =
         [\<lparr> code = ''TX'', name = ''Texas'', issuer = ''TX-DPS'', certificates = [] \<rparr>],
       timestamp = Some 1700000000000,
       version = ''0.9'' \<rparr>"

section \<open>Derived credentials (issuer/issueCredential.js)\<close>

text \<open>
  The surroundings of the issuer: loading and importing the issuer key (\<open>getIssuerKeys\<close>,
  \<open>importJWK\<close>; \<open>Some\<close> is the message of the exception), signing a payload into a compact
  JWT (\<open>SignJWT\<close>), verifying one against a public key at the time of the call (\<open>jwtVerify\<close>,
  which also rejects a payload whose \<open>exp\<close> is present and is not a number or is not later
  than the clock), the two codecs of a disclosure
  (\<open>Buffer.from(JSON.stringify(d)).toString('base64url')\<close> and
  \<open>JSON.parse(Buffer.from(s, 'base64url').toString('utf-8'))\<close>), the SHA-256 digest in
  base64url, the fingerprint \<open>sha256(JSON.stringify(key))\<close> in hexadecimal, the successive
  random salts, the clock in seconds and the two configuration values. Two more functions
  belong to the JavaScript engine: the text \<open>String(n)\<close> of a number beyond the safe
  integers (rounded digits, exponent notation from \<open>1e+21\<close> on), and the message of the
  \<open>TypeError\<close> that destructuring a value that is not iterable throws.
\<close>

record issuer_env =
  issuer_key_error :: "string option"
  sign_jwt :: "json \<Rightarrow> exn + string"
  verify_jwt :: "json \<Rightarrow> string \<Rightarrow> exn + json"
  encode_disclosure :: "json \<Rightarrow> string"
  decode_disclosure :: "string \<Rightarrow> exn + json"
  sha256_base64url :: "string \<Rightarrow> string"
  key_fingerprint_hex :: "json \<Rightarrow> string"
  random_salt :: "nat \<Rightarrow> string"
  large_number_text :: "int \<Rightarrow> string"
  not_iterable_message :: "json \<Rightarrow> string"
  now_s :: int
  ISSUER_PORT :: string
  DERIVED_VC_TTL :: int

text \<open>
  The loop of \<open>createDisclosures\<close> over \<open>Object.entries(claims)\<close>; \<open>i\<close> counts the salts
  drawn so far. It returns the encoded disclosures with their digests, in order.
\<close>

fun createDisclosures_loop :: "issuer_env \<Rightarrow> nat \<Rightarrow> obj \<Rightarrow> (string \<times> string) list" where
  "createDisclosures_loop env i [] = []"
| "createDisclosures_loop env i ((key, val) # rest) =
     (let salt = random_salt env i;
          disclosure = JArr [JStr salt, JStr key, val];
          disclosureString = encode_disclosure env disclosure;
          digest = sha256_base64url env disclosureString
      in (disclosureString, digest) # createDisclosures_loop env (Suc i) rest)"

definition createDisclosures :: "issuer_env \<Rightarrow> json \<Rightarrow> exn + string list \<times> string list" where
  "createDisclosures env claims =
     (if claims = JNull
      then Inl (TypeError ''Cannot convert undefined or null to object'')
      else (let ds = createDisclosures_loop env 0 (entries claims)
            in Inr (map fst ds, map snd ds)))"

definition credential_payload :: "issuer_env \<Rightarrow> json \<Rightarrow> json \<Rightarrow> string list \<Rightarrow> json" where
  "credential_payload env holderPublicKey verificationSessionId disclosureDigests =
     JObj [(''iss'', JStr (''http://localhost:'' @ ISSUER_PORT env)),
           (''sub'', or_default (get_prop holderPublicKey ''kid'')
                       (JStr (take 16 (key_fingerprint_hex env holderPublicKey)))),
           (''iat'', JNum (now_s env)),
           (''exp'', JNum (now_s env + DERIVED_VC_TTL env)),
           (''vct'', JStr ''https://example.com/derived-mdl-vc''),
           (''_sd'', JArr (map JStr disclosureDigests)),
           (''cnf'', JObj [(''jwk'', holderPublicKey)]),
           (''_sd_alg'', JStr ''sha-256''),
           (''derivedFrom'', JObj [(''type'', JStr ''mDL-verification''),
                                   (''sessionId'', verificationSessionId)])]"

record issued_credential =
  sdJwt :: string
  disclosures :: "string list"
  format :: string

definition issue_failure :: "string \<Rightarrow> exn" where
  "issue_failure msg = Error (''Failed to issue credential: '' @ msg)"

definition issueCredential :: "issuer_env \<Rightarrow> json \<Rightarrow> json \<Rightarrow> json \<Rightarrow> exn + issued_credential" where
  "issueCredential env holderPublicKey verificationSessionId claims =
     (case issuer_key_error env of
        Some msg \<Rightarrow> Inl (issue_failure msg)
      | None \<Rightarrow>
          (case createDisclosures env claims of
             Inl e \<Rightarrow> Inl (issue_failure (message e))
           | Inr (ds, disclosureDigests) \<Rightarrow>
               (if holderPublicKey = JNull
                then Inl (issue_failure ''Cannot read properties of null (reading 'kid')'')
                else (case sign_jwt env
                             (credential_payload env holderPublicKey verificationSessionId
                                disclosureDigests) of
                        Inl e \<Rightarrow> Inl (issue_failure (message e))
                      | Inr jwt \<Rightarrow>
                          Inr \<lparr> sdJwt = jwt @ ''~'' @ join_with CHR ''~'' ds @ ''~'',
                                disclosures = ds,
                                format = ''vc+sd-jwt'' \<rparr>))))"

text \<open>
  \<open>const [salt, key, value] = parsed\<close>: the first three elements of an array or characters
  of a string (\<open>undefined\<close> past the end); any other parsed value is not iterable.
\<close>

definition nth_opt :: "'a list \<Rightarrow> nat \<Rightarrow> 'a option" where
  "nth_opt xs i = (if i < length xs then Some (xs ! i) else None)"

fun destructure3 ::
  "issuer_env \<Rightarrow> json \<Rightarrow> exn + json option \<times> json option \<times> json option" where
  "destructure3 env (JArr xs) = Inr (nth_opt xs 0, nth_opt xs 1, nth_opt xs 2)"
| "destructure3 env (JStr s) =
     Inr (map_option (\<lambda>c. JStr [c]) (nth_opt s 0),
          map_option (\<lambda>c. JStr [c]) (nth_opt s 1),
          map_option (\<lambda>c. JStr [c]) (nth_opt s 2))"
| "destructure3 env v = Inl (TypeError (not_iterable_message env v))"

text \<open>Decimal rendering of an integer.\<close>

definition show_int :: "int \<Rightarrow> string" where
  "show_int n = (if n < 0 then CHR ''-'' # show_nat (nat (- n)) else show_nat (nat n))"

text \<open>
  \<open>String(v)\<close>, which turns the value used as a property key into the key. A safe integer
  (at most \<open>Number.MAX_SAFE_INTEGER\<close> in magnitude) is written in decimal.
\<close>

definition MAX_SAFE_INTEGER :: int where
  "MAX_SAFE_INTEGER = 9007199254740991"

fun js_to_string :: "issuer_env \<Rightarrow> json \<Rightarrow> string" where
  "js_to_string env JNull = ''null''"
| "js_to_string env (JBool b) = (if b then ''true'' else ''false'')"
| "js_to_string env (JNum n) =
     (if \<bar>n\<bar> \<le> MAX_SAFE_INTEGER then show_int n else large_number_text env n)"
| "js_to_string env (JStr s) = s"
| "js_to_string env (JArr xs) =
     join_with CHR '','' (map (\<lambda>x. if x = JNull then [] else js_to_string env x) xs)"
| "js_to_string env (JObj kvs) = ''[object Object]''"

fun to_property_key :: "issuer_env \<Rightarrow> json option \<Rightarrow> string" where
  "to_property_key env None = ''undefined''"
| "to_property_key env (Some v) = js_to_string env v"

text \<open>
  \<open>payload._sd && payload._sd.includes(digest)\<close>: membership in an array, containment in a
  string, false for a falsy \<open>_sd\<close>; any other value has no \<open>includes\<close> method.
\<close>

fun contains_text :: "string \<Rightarrow> string \<Rightarrow> bool" where
  "contains_text [] d = (d = [])"
| "contains_text (c # s) d = (take (length d) (c # s) = d \<or> contains_text s d)"

fun sd_includes :: "json option \<Rightarrow> string \<Rightarrow> exn + bool" where
  "sd_includes None digest = Inr False"
| "sd_includes (Some (JArr xs)) digest = Inr (JStr digest \<in> set xs)"
| "sd_includes (Some (JStr s)) digest = Inr (s \<noteq> [] \<and> contains_text s digest)"
| "sd_includes (Some v) digest =
     (if \<not> truthy v then Inr False
      else Inl (TypeError ''payload._sd.includes is not a function''))"

text \<open>
  The \<open>claims\<close> object under construction: whether the key \<open>__proto__\<close> still reaches
  the accessor it inherits from \<open>Object.prototype\<close>, and its own properties (a value may be
  \<open>undefined\<close>). \<open>claims[key] = value\<close> with the key \<open>__proto__\<close> calls that accessor,
  which replaces the prototype by an object or by \<open>null\<close> and ignores every other value;
  no own property appears. Once the prototype is \<open>null\<close>, or a parsed object with an own
  property \<open>__proto__\<close>, the accessor is out of reach and the key is an ordinary one.
\<close>

type_synonym claims_object = "bool \<times> (string \<times> json option) list"

fun put_claim :: "(string \<times> json option) list \<Rightarrow> string \<Rightarrow> json option
    \<Rightarrow> (string \<times> json option) list" where
  "put_claim [] k v = [(k, v)]"
| "put_claim ((k', v') # kvs) k v =
     (if k' = k then (k, v) # kvs else (k', v') # put_claim kvs k v)"

fun accessor_reachable_after :: "json option \<Rightarrow> bool" where
  "accessor_reachable_after (Some JNull) = False"
| "accessor_reachable_after (Some (JObj kvs)) = (''__proto__'' \<notin> fst ` set kvs)"
| "accessor_reachable_after _ = True"

definition claims_assign :: "claims_object \<Rightarrow> string \<Rightarrow> json option \<Rightarrow> claims_object" where
  "claims_assign c k v =
     (if k = ''__proto__'' \<and> fst c
      then (accessor_reachable_after v, snd c)
      else (fst c, put_claim (snd c) k v))"

text \<open>The loop of \<open>verifyCredential\<close> over the presented disclosures.\<close>

fun decode_disclosures ::
  "issuer_env \<Rightarrow> json \<Rightarrow> string list \<Rightarrow> claims_object \<Rightarrow> exn + claims_object" where
  "decode_disclosures env payload [] claims = Inr claims"
| "decode_disclosures env payload (disclosure # rest) claims =
     (case decode_disclosure env disclosure of
        Inl e \<Rightarrow> Inl e
      | Inr parsed \<Rightarrow>
          (case destructure3 env parsed of
             Inl e \<Rightarrow> Inl e
           | Inr (salt, key, val) \<Rightarrow>
               (case sd_includes (get_prop payload ''_sd'')
                       (sha256_base64url env disclosure) of
                  Inl e \<Rightarrow> Inl e
                | Inr included \<Rightarrow>
                    decode_disclosures env payload rest
                      (if included then claims_assign claims (to_property_key env key) val
                       else claims))))"

datatype credential_verdict =
    Verified (vc_claims: "(string \<times> json option) list") (vc_holder: "json option")
             (vc_issuer: "json option") (vc_issuedAt: "json option") (vc_expiresAt: "json option")
  | Invalid string

text \<open>\<open>payload.exp && payload.exp < now\<close>, on the number or absent \<open>exp\<close> that \<open>jwtVerify\<close> lets through.\<close>

fun credential_expired :: "json option \<Rightarrow> int \<Rightarrow> bool" where
  "credential_expired (Some (JNum e)) now = (e \<noteq> 0 \<and> e < now)"
| "credential_expired _ now = False"

definition verifyCredential :: "issuer_env \<Rightarrow> string \<Rightarrow> json \<Rightarrow> credential_verdict" where
  "verifyCredential env sdJwtString issuerPublicKey =
     (let parts = split_on CHR ''~'' sdJwtString;
          jwt = (case parts of p # _ \<Rightarrow> p | [] \<Rightarrow> []);
          ds = butlast (tl parts)
      in (case verify_jwt env issuerPublicKey jwt of
            Inl e \<Rightarrow> Invalid (message e)
          | Inr payload \<Rightarrow>
              (if credential_expired (get_prop payload ''exp'') (now_s env)
               then Invalid ''Credential expired''
               else (case decode_disclosures env payload ds (True, []) of
                       Inl e \<Rightarrow> Invalid (message e)
                     | Inr claims \<Rightarrow>
                         Verified (snd claims)
                           (opt_prop (get_prop payload ''cnf'') ''jwk'')
                           (get_prop payload ''iss'')
                           (get_prop payload ''iat'')
                           (get_prop payload ''exp'')))))"

text \<open>
  The disclosure arrays \<open>[salt, key, value]\<close> that \<open>createDisclosures\<close> builds for a list of
  claims, the \<open>i\<close>-th salt going to the first of them.
\<close>

fun disclosure_arrays :: "issuer_env \<Rightarrow> nat \<Rightarrow> obj \<Rightarrow> json list" where
  "disclosure_arrays env i [] = []"
| "disclosure_arrays env i ((key, val) # rest) =
     JArr [JStr (random_salt env i), JStr key, val] # disclosure_arrays env (Suc i) rest"

text \<open>
  Selective disclosure by the holder: of the disclosures issued for a list of claims, the
  encoded disclosures of the claims whose names satisfy \<open>keep\<close>, in order.
\<close>

fun retained_disclosures :: "issuer_env \<Rightarrow> (string \<Rightarrow> bool) \<Rightarrow> nat \<Rightarrow> obj \<Rightarrow> string list" where
  "retained_disclosures env keep i [] = []"
| "retained_disclosures env keep i ((key, val) # rest) =
     (if keep key
      then encode_disclosure env (JArr [JStr (random_salt env i), JStr key, val])
           # retained_disclosures env keep (Suc i) rest
      else retained_disclosures env keep (Suc i) rest)"

text \<open>The claims a verdict reveals for a list of issued claims.\<close>

definition revealed :: "obj \<Rightarrow> (string \<times> json option) list" where
  "revealed claims = map (\<lambda>(k, v). (k, Some v)) claims"

text \<open>
  Test doubles. The codec knows the two disclosures of the credential endpoint and one
  foreign disclosure, and fails as \<open>JSON.parse\<close> does on anything else, the empty text
  included; the digest prefixes its argument; the signer returns one fixed token, which the
  verifier maps to the given payload.
\<close>

definition fixture_decode :: "string \<Rightarrow> exn + json" where
  "fixture_decode s =
     (if s = ''WyJzYWx0MCIsIm92ZXIyMSIsdHJ1ZV0''
      then Inr (JArr [JStr ''salt0'', JStr ''over21'', JBool True])
      else if s = ''WyJzYWx0MSIsIm5vdEV4cGlyZWQiLHRydWVd''
      then Inr (JArr [JStr ''salt1'', JStr ''notExpired'', JBool True])
      else if s = ''WyJzYWx0OSIsIm92ZXI2NSIsdHJ1ZV0''
      then Inr (JArr [JStr ''salt9'', JStr ''over65'', JBool True])
      else if s = ''bnVsbA'' then Inr JNull
      else if s = [] then Inl (SyntaxError ''Unexpected end of JSON input'')
      else Inl (SyntaxError ''Unexpected token''))"

definition fixture_encode :: "json \<Rightarrow> string" where
  "fixture_encode d =
     (if d = JArr [JStr ''salt0'', JStr ''over21'', JBool True]
      then ''WyJzYWx0MCIsIm92ZXIyMSIsdHJ1ZV0''
      else if d = JArr [JStr ''salt1'', JStr ''notExpired'', JBool True]
      then ''WyJzYWx0MSIsIm5vdEV4cGlyZWQiLHRydWVd''
      else if d = JArr [JStr ''salt9'', JStr ''over65'', JBool True]
      then ''WyJzYWx0OSIsIm92ZXI2NSIsdHJ1ZV0''
      else ''bnVsbA'')"

definition fixture_issuer_env :: "json \<Rightarrow> issuer_env" where
  "fixture_issuer_env payload =
     \<lparr> issuer_key_error = None,
       sign_jwt = (\<lambda>p. Inr ''eyJhbGciOiJFUzI1NiJ9.e30.c2ln''),
       verify_jwt = (\<lambda>pk s. if s = ''eyJhbGciOiJFUzI1NiJ9.e30.c2ln'' then Inr payload
                             else Inl (Error ''signature verification failed'')),
       encode_disclosure = fixture_encode,
       decode_disclosure = fixture_decode,
       sha256_base64url = (\<lambda>s. ''sha256-'' @ s),
       key_fingerprint_hex = (\<lambda>k. ''0123456789abcdef0123456789abcdef''),
       random_salt = (\<lambda>i. ''salt'' @ show_nat i),
       large_number_text = (\<lambda>n. ''1e+21''),
       not_iterable_message = (\<lambda>v. ''JSON.parse(...) is not iterable''),
       now_s = 1700000000,
       ISSUER_PORT = ''3001'',
       DERIVED_VC_TTL = 86400 \<rparr>"

definition holder_key :: json where
  "holder_key = JObj [(''kty'', JStr ''EC''), (''kid'', JStr ''holder-1'')]"

text \<open>
  A credential string in the wire format the issuer documents,
  \<open><JWT>~<disclosure1>~<disclosure2>~...~\<close>: every disclosure is followed by the delimiter.
\<close>

definition wire_format :: "string \<Rightarrow> string list \<Rightarrow> string" where
  "wire_format jwt ds = jwt @ ''~'' @ concat (map (\<lambda>d. d @ ''~'') ds)"


section \<open>Issuance sessions (issuer/server.js)\<close>

text \<open>
  A session object. The session map holds references: after a token exchange the same
  object is stored under the authorization code and under the access token, so the map
  sends keys to addresses and the heap sends addresses to objects.
\<close>

record session =
  session_authCode :: string
  session_holderPublicKey :: json
  session_verificationSessionId :: json
  session_timestamp :: string
  session_accessToken :: "string option"

text \<open>
  The state of the issuer process: the \<open>sessions\<close> map, the heap of session objects with
  the next free address, and the pending \<open>setTimeout\<close> callbacks, each with the time in
  milliseconds at which it is due and the key it deletes.
\<close>

record issuer_state =
  sessions :: "string \<rightharpoonup> nat"
  heap :: "nat \<Rightarrow> session"
  next_ref :: nat
  timers :: "(int \<times> string) list"

datatype response = Response (resp_status: nat) (resp_body: json)

definition error_response :: "nat \<Rightarrow> string \<Rightarrow> string \<Rightarrow> response" where
  "error_response status err description =
     Response status (JObj [(''error'', JStr err), (''error_description'', JStr description)])"

text \<open>
  The timer callbacks that are due at time \<open>now\<close> run before a request arriving at that
  time is handled: each deletes its key from the map.
\<close>

definition timer_due :: "int \<Rightarrow> int \<times> string \<Rightarrow> bool" where
  "timer_due now t = (fst t \<le> now)"

definition fire_timers :: "int \<Rightarrow> issuer_state \<Rightarrow> issuer_state" where
  "fire_timers now st =
     st \<lparr> sessions := (\<lambda>k. if k \<in> snd ` set (filter (timer_due now) (timers st)) then None
                             else sessions st k),
          timers := filter (\<lambda>t. \<not> timer_due now t) (timers st) \<rparr>"

text \<open>
  \<open>POST /authorize\<close> at time \<open>now\<close> (with its ISO rendering), drawing the UUID \<open>authCode\<close>.
  The request body is the object the JSON body parser delivers.
\<close>

definition authorize :: "issuer_state \<Rightarrow> int \<Rightarrow> string \<Rightarrow> string \<Rightarrow> json \<Rightarrow> response \<times> issuer_state" where
  "authorize st now now_text authCode body =
     (let verificationSessionId = get_prop body ''verificationSessionId'';
          holderPublicKey = get_prop body ''holderPublicKey''
      in if \<not> truthy_opt verificationSessionId \<or> \<not> truthy_opt holderPublicKey
         then (error_response 400 ''invalid_request''
                 ''Missing verificationSessionId or holderPublicKey'', st)
         else
           (let sessionData =
                  \<lparr> session_authCode = authCode,
                    session_holderPublicKey = or_default holderPublicKey JNull,
                    session_verificationSessionId = or_default verificationSessionId JNull,
                    session_timestamp = now_text,
                    session_accessToken = None \<rparr>;
                ref = next_ref st
            in (Response 200 (JObj [(''authorization_code'', JStr authCode),
                                    (''expires_in'', JNum 600)]),
                st \<lparr> sessions := (sessions st)(authCode \<mapsto> ref),
                     heap := (heap st)(ref := sessionData),
                     next_ref := Suc ref,
                     timers := timers st @ [(now + 10 * 60 * 1000, authCode)] \<rparr>)))"

text \<open>\<open>sessions.get(key)\<close>: the keys of the map are strings, so no other value is found.\<close>

fun sessions_get :: "issuer_state \<Rightarrow> json option \<Rightarrow> nat option" where
  "sessions_get st (Some (JStr k)) = sessions st k"
| "sessions_get st _ = None"

definition token_response :: "string \<Rightarrow> string \<Rightarrow> response" where
  "token_response accessToken c_nonce =
     Response 200 (JObj [(''access_token'', JStr accessToken),
                         (''token_type'', JStr ''bearer''),
                         (''expires_in'', JNum 3600),
                         (''c_nonce'', JStr c_nonce),
                         (''c_nonce_expires_in'', JNum 300)])"

definition invalid_grant :: response where
  "invalid_grant = error_response 400 ''invalid_grant'' ''Invalid or expired authorization code''"

text \<open>\<open>POST /token\<close>, drawing the UUIDs \<open>accessToken\<close> and \<open>c_nonce\<close>.\<close>

definition token :: "issuer_state \<Rightarrow> string \<Rightarrow> string \<Rightarrow> json \<Rightarrow> response \<times> issuer_state" where
  "token st accessToken c_nonce body =
     (if get_prop body ''grant_type'' \<noteq> Some (JStr ''authorization_code'')
      then (error_response 400 ''unsupported_grant_type''
              ''Only authorization_code grant type is supported'', st)
      else (case sessions_get st (get_prop body ''code'') of
              None \<Rightarrow> (invalid_grant, st)
            | Some ref \<Rightarrow>
                (token_response accessToken c_nonce,
                 st \<lparr> heap := (heap st)
                        (ref := (heap st ref) \<lparr> session_accessToken := Some accessToken \<rparr>),
                      sessions := (sessions st)(accessToken \<mapsto> ref) \<rparr>)))"

definition invalid_token :: "string \<Rightarrow> response" where
  "invalid_token description = error_response 401 ''invalid_token'' description"

text \<open>
  \<open>POST /credential\<close> with the \<open>Authorization\<close> header, drawing the UUID \<open>c_nonce\<close>. The
  handler leaves the state as it is.
\<close>

definition credential_claims :: json where
  "credential_claims = JObj [(''over21'', JBool True), (''notExpired'', JBool True)]"

definition credential :: "issuer_env \<Rightarrow> issuer_state \<Rightarrow> string option \<Rightarrow> string \<Rightarrow> json \<Rightarrow> response" where
  "credential env st authHeader c_nonce body =
     (case authHeader of
        None \<Rightarrow> invalid_token ''Missing or invalid access token''
      | Some header \<Rightarrow>
          (if take 7 header \<noteq> ''Bearer ''
           then invalid_token ''Missing or invalid access token''
           else (case sessions st (drop 7 header) of
                   None \<Rightarrow> invalid_token ''Invalid or expired access token''
                 | Some ref \<Rightarrow>
                     (if truthy_opt (get_prop body ''format'')
                         \<and> get_prop body ''format'' \<noteq> Some (JStr ''vc+sd-jwt'')
                      then error_response 400 ''unsupported_credential_format''
                             ''Only vc+sd-jwt format is supported''
                      else if truthy_opt (get_prop body ''proof'')
                         \<and> opt_prop (get_prop body ''proof'') ''proof_type'' \<noteq> Some (JStr ''jwt'')
                      then error_response 400 ''invalid_proof''
                             ''Only jwt proof type is supported''
                      else (case issueCredential env
                                   (session_holderPublicKey (heap st ref))
                                   (session_verificationSessionId (heap st ref))
                                   credential_claims of
                              Inl e \<Rightarrow> error_response 500 ''server_error'' (message e)
                            | Inr cred \<Rightarrow>
                                Response 200 (JObj [(''format'', JStr ''vc+sd-jwt''),
                                                    (''credential'', JStr (sdJwt cred)),
                                                    (''c_nonce'', JStr c_nonce),
                                                    (''c_nonce_expires_in'', JNum 300)]))))))"

text \<open>Test data: the state of a fresh process and the requests of the end-to-end scenario.\<close>

definition initial_state :: issuer_state where
  "initial_state =
     \<lparr> sessions = Map.empty,
       heap = (\<lambda>ref. \<lparr> session_authCode = [], session_holderPublicKey = JNull,
                       session_verificationSessionId = JNull, session_timestamp = [],
                       session_accessToken = None \<rparr>),
       next_ref = 0,
       timers = [] \<rparr>"

definition authorize_request :: json where
  "authorize_request =
     JObj [(''verificationSessionId'', JStr ''s1''), (''holderPublicKey'', holder_key)]"

definition token_request :: "string \<Rightarrow> json" where
  "token_request c = JObj [(''grant_type'', JStr ''authorization_code''), (''code'', JStr c)]"

section \<open>Properties of the session transcript\<close>

text \<open>
  C7, as amended. \<open>validateSessionTranscript\<close> returns false for a value that is not an
  array, for an array whose length is not 3 and for a transcript whose third element is not
  an array, and true for every other value: the handover tag is never inspected, and
  non-null first elements only produce a warning.
\<close>

theorem validateSessionTranscript_shape:
  "snd (validateSessionTranscript t) = (\<exists>de rk h. t = JArr [de, rk, JArr h])
   \<and> fst (validateSessionTranscript (JArr [de, rk, h])) =
       (if de = JNull \<and> rk = JNull then [] else [transcript_warning])"
proof -
  have verdict: "snd (validateSessionTranscript t) = (\<exists>de rk h. t = JArr [de, rk, JArr h])"
  proof (cases "\<exists>de rk hv. t = JArr [de, rk, hv]")
    case True
    then obtain de rk hv where t: "t = JArr [de, rk, hv]" by blast
    show ?thesis by (cases hv) (simp_all add: t Let_def)
  next
    case False
    then have "validateSessionTranscript t = ([], False)"
      by (cases t rule: validateSessionTranscript.cases) auto
    with False show ?thesis by auto
  qed
  have "fst (validateSessionTranscript (JArr [de, rk, h])) =
          (if de = JNull \<and> rk = JNull then [] else [transcript_warning])"
    by (simp add: Let_def)
  with verdict show ?thesis by simp
qed

theorem validateSessionTranscript_shape_witness:
  "snd (validateSessionTranscript
     (JArr [JNull, JNull, JArr [JStr ''OpenID4VPDCAPIHandover'', JNull, JNull, JNull]]))
   \<and> \<not> snd (validateSessionTranscript (JArr [JNull, JNull]))
   \<and> fst (validateSessionTranscript (JArr [JNull, JStr ''readerKey'', JNull]))
       = [transcript_warning]"
  using validateSessionTranscript_shape
    [of "JArr [JNull, JNull, JArr [JStr ''OpenID4VPDCAPIHandover'', JNull, JNull, JNull]]"]
    validateSessionTranscript_shape [of "JArr [JNull, JNull]" JNull "JStr ''readerKey''" JNull]
  by simp

text \<open>
  C7 as stated fails: a transcript with another handover tag is valid, and so is a
  transcript whose first two elements are not null.
\<close>

theorem validateSessionTranscript_corrupted_accepted:
  "snd (validateSessionTranscript
     (JArr [JNull, JNull, JArr [JStr ''SomeOtherHandover'', JNull, JNull, JNull]])) = True
   \<and> validateSessionTranscript
     (JArr [JStr ''engagement'', JStr ''readerKey'', JArr [JStr ''OpenID4VPDCAPIHandover'']])
     = ([transcript_warning], True)"
  by simp

section \<open>Properties of the presentation verifier\<close>

subsection \<open>Object updates and the boolean filter\<close>

lemma set_obj_put: "set (obj_put ob k v) \<subseteq> insert (k, v) (set ob)"
  by (induction ob) (auto split: if_splits)

lemma obj_put_all:
  assumes "\<forall>e \<in> set ob. P e" and "P (k, v)"
  shows "\<forall>e \<in> set (obj_put ob k v). P e"
  using assms set_obj_put [of ob k v] by auto

lemma map_of_obj_put_same: "map_of (obj_put ob k v) k = Some v"
  by (induction ob) auto

lemma set_assign_primitive: "set (assign_primitive ob k v) \<subseteq> insert (k, v) (set ob)"
  using set_obj_put by (auto simp: assign_primitive_def)

lemma copy_booleans_all:
  "\<forall>e \<in> set acc. is_boolean (snd e) \<Longrightarrow> \<forall>e \<in> set (copy_booleans es acc). is_boolean (snd e)"
proof (induction es arbitrary: acc)
  case Nil
  then show ?case by simp
next
  case (Cons e es)
  obtain k' v' where e: "e = (k', v')" by (cases e)
  show ?case
  proof (cases "is_boolean v'")
    case True
    with Cons.prems have "\<forall>x \<in> set (assign_primitive acc k' v'). is_boolean (snd x)"
      using set_assign_primitive [of acc k' v'] by auto
    then show ?thesis using Cons.IH True e by simp
  next
    case False
    then show ?thesis using Cons.IH [OF Cons.prems] e by simp
  qed
qed

lemma copy_booleans_empty: "(k, v) \<in> set (copy_booleans es []) \<Longrightarrow> is_boolean v"
  using copy_booleans_all [of "[]" es] by auto

lemma extractPredicates_entries: "\<forall>e \<in> set (extractPredicates r). minimal_entry r e"
proof -
  define preds where "preds = get_prop r ''predicates''"
  define p0 where "p0 = (case preds of
                  Some p \<Rightarrow> if truthy p then copy_booleans (entries p) [] else []
                | None \<Rightarrow> [])"
  define p1 where "p1 = (if truthy_opt (opt_prop preds ''org.iso.18013.5.1.age_over_21'')
                then obj_put p0 ''over21'' (JBool True) else p0)"
  define p2 where "p2 = (if truthy_opt (opt_prop preds ''org.iso.18013.5.1.age_over_18'')
                then obj_put p1 ''over18'' (JBool True) else p1)"
  define p3 where "p3 = (case get_prop r ''issuer'' of
                  Some iss \<Rightarrow>
                    if truthy iss then obj_put p2 ''issuerJurisdiction'' iss else p2
                | None \<Rightarrow> p2)"
  have res: "extractPredicates r = obj_put p3 ''notExpired''
           (JBool (opt_prop preds ''org.iso.18013.5.1.not_expired'' \<noteq> Some (JBool False)))"
    unfolding extractPredicates_def Let_def p3_def p2_def p1_def p0_def preds_def by (rule refl)
  have "\<forall>e \<in> set p0. is_boolean (snd e)"
    by (cases preds) (auto simp: p0_def dest: copy_booleans_empty)
  then have h0: "\<forall>e \<in> set p0. minimal_entry r e"
    by (simp add: minimal_entry_def)
  have h1: "\<forall>e \<in> set p1. minimal_entry r e"
    unfolding p1_def using h0 obj_put_all [OF h0, of "''over21''" "JBool True"]
    by (simp add: minimal_entry_def)
  have h2: "\<forall>e \<in> set p2. minimal_entry r e"
    unfolding p2_def using h1 obj_put_all [OF h1, of "''over18''" "JBool True"]
    by (simp add: minimal_entry_def)
  have h3: "\<forall>e \<in> set p3. minimal_entry r e"
  proof (cases "get_prop r ''issuer''")
    case None
    then show ?thesis using h2 by (simp add: p3_def)
  next
    case (Some i)
    then show ?thesis
      using h2 obj_put_all [OF h2, of "''issuerJurisdiction''" i]
      by (simp add: p3_def minimal_entry_def)
  qed
  have "minimal_entry r (''notExpired'', JBool b)" for b
    by (simp add: minimal_entry_def)
  from obj_put_all [OF h3 this] show ?thesis
    unfolding res .
qed

lemma extractPredicates_notExpired:
  "map_of (extractPredicates r) ''notExpired'' =
     Some (JBool (opt_prop (get_prop r ''predicates'') ''org.iso.18013.5.1.not_expired'' \<noteq> Some (JBool False)))"
  by (simp add: extractPredicates_def Let_def map_of_obj_put_same)

subsection \<open>What \<open>verifyPresentation\<close> returns as predicates\<close>

lemma get_prop_invalid_result:
  "get_prop (invalid_result e) ''predicates'' = None" "get_prop (invalid_result e) ''mock'' = None"
  by (simp_all add: invalid_result_def)

lemma verify_and_extract_predicates:
  assumes "get_prop (verify_and_extract env vp st) ''predicates'' = Some pv"
  shows "pv = JObj (extractPredicates (verifyWithLongfellow env vp st))"
  using assms
  by (simp add: verify_and_extract_def Let_def get_prop_invalid_result split: if_splits)

lemma verifyPresentation_predicates:
  assumes "get_prop (verifyPresentation env jwe) ''predicates'' = Some pv"
  shows "\<exists>vp st. pv = JObj (extractPredicates (verifyWithLongfellow env vp st))"
  using assms verify_and_extract_predicates
  by (fastforce simp: verifyPresentation_def get_prop_invalid_result split: sum.splits if_splits)

text \<open>
  What the reduction does guarantee. Whenever \<open>verifyPresentation\<close> returns a \<open>predicates\<close>
  map, it is \<open>extractPredicates\<close> of the remote verifier's result, and every entry of it is
  either boolean-valued or the entry \<open>issuerJurisdiction\<close> holding the remote result's
  \<open>issuer\<close> value. Hence no non-boolean value found under the remote result's \<open>predicates\<close>
  is copied. The derived \<open>notExpired\<close> entry is true unless the remote result sets the
  predicate \<open>org.iso.18013.5.1.not_expired\<close> to \<open>false\<close>.
\<close>

theorem verifyPresentation_predicates_minimal:
  assumes "get_prop (verifyPresentation env jwe) ''predicates'' = Some pv"
  shows "\<exists>vp st. pv = JObj (extractPredicates (verifyWithLongfellow env vp st)) \<and>
           (\<forall>k v. (k, v) \<in> set (extractPredicates (verifyWithLongfellow env vp st)) \<longrightarrow>
              is_boolean v \<or>
              (k = ''issuerJurisdiction'' \<and>
               get_prop (verifyWithLongfellow env vp st) ''issuer'' = Some v)) \<and>
           map_of (extractPredicates (verifyWithLongfellow env vp st)) ''notExpired'' =
             Some (JBool (opt_prop (get_prop (verifyWithLongfellow env vp st) ''predicates'')
                            ''org.iso.18013.5.1.not_expired'' \<noteq> Some (JBool False)))"
proof -
  from verifyPresentation_predicates [OF assms] obtain vp st
    where pv: "pv = JObj (extractPredicates (verifyWithLongfellow env vp st))" by blast
  have "\<forall>k v. (k, v) \<in> set (extractPredicates (verifyWithLongfellow env vp st)) \<longrightarrow>
              is_boolean v \<or>
              (k = ''issuerJurisdiction'' \<and>
               get_prop (verifyWithLongfellow env vp st) ''issuer'' = Some v)"
    using extractPredicates_entries [of "verifyWithLongfellow env vp st"]
    by (auto simp: minimal_entry_def)
  with pv extractPredicates_notExpired show ?thesis by blast
qed

lemmas eval_verifier =
  verifyPresentation_def fixture_verifier_env_def extract_vp_token_def js_or_def
  first_value_def buildSessionTranscript_def verify_and_extract_def verifyWithLongfellow_def
  mockLongfellowResponse_def extractPredicates_def assign_primitive_def invalid_result_def Let_def

theorem verifyPresentation_predicates_minimal_witness:
  "get_prop (verifyPresentation
      (fixture_verifier_env (Response_ok (JObj
         [(''valid'', JBool True),
          (''predicates'', JObj [(''org.iso.18013.5.1.age_over_21'', JBool True),
                                 (''birthDate'', JStr ''1990-01-01'')]),
          (''issuer'', JStr ''CA-DMV'')])))
      ''jwe'') ''predicates'' =
   Some (JObj [(''org.iso.18013.5.1.age_over_21'', JBool True),
               (''over21'', JBool True),
               (''issuerJurisdiction'', JStr ''CA-DMV''),
               (''notExpired'', JBool True)])
   \<and> (\<exists>r. JObj [(''org.iso.18013.5.1.age_over_21'', JBool True),
               (''over21'', JBool True),
               (''issuerJurisdiction'', JStr ''CA-DMV''),
               (''notExpired'', JBool True)] = JObj (extractPredicates r) \<and>
         map_of (extractPredicates r) ''notExpired'' =
             Some (JBool (opt_prop (get_prop r ''predicates'')
                            ''org.iso.18013.5.1.not_expired'' \<noteq> Some (JBool False))))"
proof -
  let ?env = "fixture_verifier_env (Response_ok (JObj
         [(''valid'', JBool True),
          (''predicates'', JObj [(''org.iso.18013.5.1.age_over_21'', JBool True),
                                 (''birthDate'', JStr ''1990-01-01'')]),
          (''issuer'', JStr ''CA-DMV'')]))"
  have h: "get_prop (verifyPresentation ?env ''jwe'') ''predicates'' =
     Some (JObj [(''org.iso.18013.5.1.age_over_21'', JBool True),
               (''over21'', JBool True),
               (''issuerJurisdiction'', JStr ''CA-DMV''),
               (''notExpired'', JBool True)])"
    by (simp add: eval_verifier)
  from verifyPresentation_predicates_minimal [OF h] h show ?thesis by blast
qed

text \<open>
  C1 does not hold of the code. The loop over the remote result's \<open>predicates\<close> copies
  boolean values only (its comment: \<open>Only include boolean predicates (not raw PII)\<close>), but
  the remote result's \<open>issuer\<close> is copied under \<open>issuerJurisdiction\<close> after a test of
  truthiness alone (under the comment \<open>Add issuer jurisdiction (not PII)\<close>). A remote
  result whose \<open>issuer\<close> is the object \<open>{"name": "Jane Doe"}\<close> therefore reaches the caller
  of \<open>verifyPresentation\<close> with that object among the predicates: an entry that is neither
  a boolean nor a string label. The string \<open>birthDate\<close> under \<open>predicates\<close> is dropped, as
  the filter intends.
\<close>

theorem verifyPresentation_forwards_issuer_value:
  "get_prop (verifyPresentation
      (fixture_verifier_env (Response_ok (JObj
         [(''valid'', JBool True),
          (''predicates'', JObj [(''org.iso.18013.5.1.age_over_21'', JBool True),
                                 (''birthDate'', JStr ''1990-01-01'')]),
          (''issuer'', JObj [(''name'', JStr ''Jane Doe'')])])))
      ''jwe'') ''predicates'' =
   Some (JObj [(''org.iso.18013.5.1.age_over_21'', JBool True),
               (''over21'', JBool True),
               (''issuerJurisdiction'', JObj [(''name'', JStr ''Jane Doe'')]),
               (''notExpired'', JBool True)])"
  by (simp add: eval_verifier)

subsection \<open>The synthetic result\<close>

lemma extractPredicates_mock:
  "extractPredicates (mockLongfellowResponse env vp) = extractPredicates genuine_result"
  by (simp add: mockLongfellowResponse_def genuine_result_def extractPredicates_def
      assign_primitive_def)

lemma verify_and_extract_mock:
  assumes "\<And>req. post_verify env req = Fetch_threw (Some ''ECONNREFUSED'') msg"
  shows "verify_and_extract env vp st =
         verify_and_extract (env\<lparr>post_verify := \<lambda>req. Response_ok genuine_result\<rparr>) vp st"
proof -
  have a: "verifyWithLongfellow env vp st = mockLongfellowResponse env vp"
    by (simp add: verifyWithLongfellow_def assms)
  have b: "verifyWithLongfellow (env\<lparr>post_verify := \<lambda>req. Response_ok genuine_result\<rparr>) vp st
           = genuine_result"
    by (simp add: verifyWithLongfellow_def)
  have c: "mockLongfellowResponse env vp \<noteq> JNull" "genuine_result \<noteq> JNull"
    "get_prop (mockLongfellowResponse env vp) ''valid'' = Some (JBool True)"
    "get_prop genuine_result ''valid'' = Some (JBool True)"
    by (simp_all add: mockLongfellowResponse_def genuine_result_def)
  show ?thesis
    unfolding verify_and_extract_def a b Let_def
    by (simp add: c extractPredicates_mock)
qed

lemma get_prop_verify_and_extract_mock:
  "get_prop (verify_and_extract env vp st) ''mock'' = None"
  by (simp add: verify_and_extract_def Let_def get_prop_invalid_result)

text \<open>
  C5 fails on the code. When the remote verifier refuses the connection,
  \<open>verifyWithLongfellow\<close> returns the synthetic result with \<open>mock: true\<close>, but the flag
  stops there: the result of \<open>verifyPresentation\<close> has no \<open>mock\<close> property, and it is the
  result the same call returns when the remote verifier genuinely answers with the same
  predicates and issuer.
\<close>

theorem mock_flag_not_propagated:
  assumes "\<And>req. post_verify env req = Fetch_threw (Some ''ECONNREFUSED'') msg"
  shows "get_prop (verifyWithLongfellow env vpToken st) ''mock'' = Some (JBool True)
       \<and> get_prop (verifyPresentation env jwe) ''mock'' = None
       \<and> verifyPresentation env jwe =
           verifyPresentation (env\<lparr>post_verify := \<lambda>req. Response_ok genuine_result\<rparr>) jwe"
proof -
  have 1: "get_prop (verifyWithLongfellow env vpToken st) ''mock'' = Some (JBool True)"
    by (simp add: verifyWithLongfellow_def assms mockLongfellowResponse_def)
  have 2: "get_prop (verifyPresentation env jwe) ''mock'' = None"
    by (simp add: verifyPresentation_def get_prop_invalid_result
        get_prop_verify_and_extract_mock split: sum.splits)
  have 3: "verifyPresentation env jwe =
           verifyPresentation (env\<lparr>post_verify := \<lambda>req. Response_ok genuine_result\<rparr>) jwe"
    by (simp add: verifyPresentation_def verify_and_extract_mock [OF assms] split: sum.splits)
  from 1 2 3 show ?thesis by blast
qed

text \<open>
  The failing input of C5, evaluated: with the connection refused, the caller of
  \<open>verifyPresentation\<close> receives exactly the properties \<open>valid\<close>, \<open>predicates\<close> and
  \<open>sessionId\<close>.
\<close>

theorem mock_result_unflagged:
  "verifyPresentation
     (fixture_verifier_env (Fetch_threw (Some ''ECONNREFUSED'') ''connect ECONNREFUSED'')) ''jwe''
   = JObj [(''valid'', JBool True),
           (''predicates'', JObj [(''org.iso.18013.5.1.age_over_21'', JBool True),
                                  (''org.iso.18013.5.1.not_expired'', JBool True),
                                  (''over21'', JBool True),
                                  (''issuerJurisdiction'', JStr ''CA-DMV''),
                                  (''notExpired'', JBool True)]),
           (''sessionId'', JStr ''session-uuid'')]"
  by (simp add: eval_verifier)

theorem mock_flag_not_propagated_witness:
  "get_prop (verifyPresentation
     (fixture_verifier_env (Fetch_threw (Some ''ECONNREFUSED'') ''connect ECONNREFUSED'')) ''jwe'')
     ''mock'' = None
   \<and> verifyPresentation
     (fixture_verifier_env (Fetch_threw (Some ''ECONNREFUSED'') ''connect ECONNREFUSED'')) ''jwe''
     = verifyPresentation (fixture_verifier_env (Response_ok genuine_result)) ''jwe''"
proof -
  let ?env = "fixture_verifier_env (Fetch_threw (Some ''ECONNREFUSED'') ''connect ECONNREFUSED'')"
  have h: "\<And>req. post_verify ?env req = Fetch_threw (Some ''ECONNREFUSED'') ''connect ECONNREFUSED''"
    by (simp add: fixture_verifier_env_def)
  have e: "?env\<lparr>post_verify := \<lambda>req. Response_ok genuine_result\<rparr>
           = fixture_verifier_env (Response_ok genuine_result)"
    by (simp add: fixture_verifier_env_def)
  from mock_flag_not_propagated [OF h, of JNull JNull "''jwe''"] show ?thesis
    unfolding e by blast
qed

section \<open>Properties of the trust list\<close>

lemma refresh_vical_remote_failure:
  assumes "vical_endpoint env = Vical_not_ok st \<or> vical_endpoint env = Vical_threw msg"
  shows "refresh_vical env cache =
           (Inr \<lparr> jurisdictions = mock_jurisdictions, timestamp = Some (now_ms env),
                  version = ''1.0'' \<rparr>,
            if write_ok env
            then Some \<lparr> jurisdictions = mock_jurisdictions, timestamp = Some (now_ms env),
                        version = ''1.0'' \<rparr>
            else cache)"
  using assms by (auto simp: refresh_vical_def getMockVicalData_def Let_def)

lemma refresh_vical_null_body:
  assumes "vical_endpoint env = Vical_ok None"
  shows "refresh_vical env cache =
           (stale_fallback
              (TypeError ''Cannot read properties of null (reading 'jurisdictions')'') cache,
            cache)"
  using assms by (simp add: refresh_vical_def)

lemma fetchVical_refreshes:
  assumes "mkdir_error env = None"
    and "cache = None \<or> (\<exists>c. cache = Some c \<and> isCacheExpired (now_ms env) (timestamp c))"
  shows "fetchVical env cache = refresh_vical env cache"
  using assms by (auto simp: fetchVical_def)

text \<open>
  C8, as amended. Let a refresh be due (the cache file is missing or older than 24 hours).
  When the remote trust list cannot be fetched (a non-2xx status or an exception),
  \<open>fetchVical\<close> substitutes the built-in mock list, stamps it with the current time, writes
  it over the cache file and returns it; the result has no staleness tag. Only when the
  refresh itself throws (the cache directory cannot be created, or the response body is
  \<open>null\<close>) does \<open>fetchVical\<close> return the existing cache, unchanged and untagged, and with
  no cache it throws \<open>VICAL fetch failed and no cache available\<close>.
\<close>

theorem fetchVical_refresh_failure:
  "(mkdir_error env = None \<and>
    (cache = None \<or> (\<exists>c. cache = Some c \<and> isCacheExpired (now_ms env) (timestamp c))) \<and>
    (vical_endpoint env = Vical_not_ok st \<or> vical_endpoint env = Vical_threw msg)
    \<longrightarrow> fetchVical env cache =
          (Inr \<lparr> jurisdictions = mock_jurisdictions, timestamp = Some (now_ms env),
                 version = ''1.0'' \<rparr>,
           if write_ok env
           then Some \<lparr> jurisdictions = mock_jurisdictions, timestamp = Some (now_ms env),
                       version = ''1.0'' \<rparr>
           else cache))
   \<and> (mkdir_error env = None \<and>
      (cache = None \<or> (\<exists>c. cache = Some c \<and> isCacheExpired (now_ms env) (timestamp c))) \<and>
      vical_endpoint env = Vical_ok None
      \<longrightarrow> fetchVical env cache =
            (case cache of
               Some c \<Rightarrow> Inr c
             | None \<Rightarrow>
                 Inl (Error (''VICAL fetch failed and no cache available: '' @
                        ''Cannot read properties of null (reading 'jurisdictions')'')),
             cache))
   \<and> (mkdir_error env = Some m
      \<longrightarrow> fetchVical env cache =
            (case cache of
               Some c \<Rightarrow> Inr c
             | None \<Rightarrow> Inl (Error (''VICAL fetch failed and no cache available: '' @ m)),
             cache))"
proof (intro conjI impI)
  assume a: "mkdir_error env = None \<and>
    (cache = None \<or> (\<exists>c. cache = Some c \<and> isCacheExpired (now_ms env) (timestamp c))) \<and>
    (vical_endpoint env = Vical_not_ok st \<or> vical_endpoint env = Vical_threw msg)"
  then have "fetchVical env cache = refresh_vical env cache"
    using fetchVical_refreshes by blast
  with a show "fetchVical env cache =
          (Inr \<lparr> jurisdictions = mock_jurisdictions, timestamp = Some (now_ms env),
                 version = ''1.0'' \<rparr>,
           if write_ok env
           then Some \<lparr> jurisdictions = mock_jurisdictions, timestamp = Some (now_ms env),
                       version = ''1.0'' \<rparr>
           else cache)"
    using refresh_vical_remote_failure [of env st msg cache] by simp
next
  assume a: "mkdir_error env = None \<and>
      (cache = None \<or> (\<exists>c. cache = Some c \<and> isCacheExpired (now_ms env) (timestamp c))) \<and>
      vical_endpoint env = Vical_ok None"
  then have "fetchVical env cache = refresh_vical env cache"
    using fetchVical_refreshes by blast
  with a show "fetchVical env cache =
            (case cache of
               Some c \<Rightarrow> Inr c
             | None \<Rightarrow>
                 Inl (Error (''VICAL fetch failed and no cache available: '' @
                        ''Cannot read properties of null (reading 'jurisdictions')'')),
             cache)"
    using refresh_vical_null_body [of env cache] by (cases cache) simp_all
next
  assume "mkdir_error env = Some m"
  then show "fetchVical env cache =
            (case cache of
               Some c \<Rightarrow> Inr c
             | None \<Rightarrow> Inl (Error (''VICAL fetch failed and no cache available: '' @ m)),
             cache)"
    by (cases cache) (simp_all add: fetchVical_def)
qed

theorem fetchVical_refresh_failure_witness:
  "fetchVical (fixture_trust_env (Vical_not_ok 503) 1750000000000) (Some stale_cache) =
     (Inr \<lparr> jurisdictions = mock_jurisdictions, timestamp = Some 1750000000000,
            version = ''1.0'' \<rparr>,
      Some \<lparr> jurisdictions = mock_jurisdictions, timestamp = Some 1750000000000,
             version = ''1.0'' \<rparr>)
   \<and> fetchVical (fixture_trust_env (Vical_ok None) 1750000000000) (Some stale_cache) =
       (Inr stale_cache, Some stale_cache)
   \<and> fetchVical ((fixture_trust_env (Vical_not_ok 503) 1750000000000)
                   \<lparr> mkdir_error := Some ''EACCES: permission denied'' \<rparr>) None =
       (Inl (Error ''VICAL fetch failed and no cache available: EACCES: permission denied''),
        None)"
  using
    fetchVical_refresh_failure
      [of "fixture_trust_env (Vical_not_ok 503) 1750000000000" "Some stale_cache" 503 "[]" "[]"]
    fetchVical_refresh_failure
      [of "fixture_trust_env (Vical_ok None) 1750000000000" "Some stale_cache" 0 "[]" "[]"]
    fetchVical_refresh_failure
      [of "(fixture_trust_env (Vical_not_ok 503) 1750000000000)
             \<lparr> mkdir_error := Some ''EACCES: permission denied'' \<rparr>" None 0 "[]"
          "''EACCES: permission denied''"]
  by (simp add: fixture_trust_env_def stale_cache_def CACHE_TTL_def)

text \<open>
  C8 as stated fails: with the remote endpoint unreachable, a stale cache is replaced by
  freshly stamped mock data, and with no cache at all the same mock data is returned instead
  of an error.
\<close>

theorem fetchVical_unreachable_returns_mock:
  "fetchVical (fixture_trust_env (Vical_threw ''getaddrinfo ENOTFOUND vical.dts.aamva.org'')
                 1750000000000) (Some stale_cache) =
     (Inr \<lparr> jurisdictions = mock_jurisdictions, timestamp = Some 1750000000000,
            version = ''1.0'' \<rparr>,
      Some \<lparr> jurisdictions = mock_jurisdictions, timestamp = Some 1750000000000,
             version = ''1.0'' \<rparr>)
   \<and> fetchVical (fixture_trust_env (Vical_threw ''getaddrinfo ENOTFOUND vical.dts.aamva.org'')
                   1750000000000) None =
     (Inr \<lparr> jurisdictions = mock_jurisdictions, timestamp = Some 1750000000000,
            version = ''1.0'' \<rparr>,
      Some \<lparr> jurisdictions = mock_jurisdictions, timestamp = Some 1750000000000,
             version = ''1.0'' \<rparr>)"
  by (simp add: fetchVical_def refresh_vical_def getMockVicalData_def fixture_trust_env_def
      stale_cache_def CACHE_TTL_def Let_def)

section \<open>Properties of issuer pinning\<close>














section \<open>Properties of derived credentials\<close>

subsection \<open>Splitting the wire format\<close>

lemma split_on_nonempty: "split_on c s \<noteq> []"
  by (induction s) (auto split: list.splits)

lemma split_on_no_separator: "c \<notin> set p \<Longrightarrow> split_on c p = [p]"
  by (induction p) auto

lemma split_on_segment: "c \<notin> set p \<Longrightarrow> split_on c (p @ c # rest) = p # split_on c rest"
  by (induction p) auto

lemma split_on_segments:
  "\<forall>d \<in> set ds. c \<notin> set d \<Longrightarrow> split_on c (concat (map (\<lambda>d. d @ [c]) ds)) = ds @ [[]]"
  by (induction ds) (simp_all add: split_on_segment)

lemma split_wire_format:
  assumes "CHR ''~'' \<notin> set jwt" and "\<forall>d \<in> set ds. CHR ''~'' \<notin> set d"
  shows "split_on CHR ''~'' (wire_format jwt ds) = jwt # ds @ [[]]"
  using assms by (simp add: wire_format_def split_on_segment split_on_segments)

lemma join_with_trailing:
  "ds \<noteq> [] \<Longrightarrow> join_with c ds @ [c] = concat (map (\<lambda>d. d @ [c]) ds)"
  by (induction c ds rule: join_with.induct) simp_all

subsection \<open>The verification loop\<close>


lemma verifyCredential_wire_format:
  assumes "CHR ''~'' \<notin> set jwt" and "\<forall>d \<in> set ds. CHR ''~'' \<notin> set d"
    and "verify_jwt env pk jwt = Inr payload"
    and "\<not> credential_expired (get_prop payload ''exp'') (now_s env)"
  shows "verifyCredential env (wire_format jwt ds) pk =
           (case decode_disclosures env payload ds (True, []) of
              Inl e \<Rightarrow> Invalid (message e)
            | Inr claims \<Rightarrow>
                Verified (snd claims) (opt_prop (get_prop payload ''cnf'') ''jwk'')
                  (get_prop payload ''iss'') (get_prop payload ''iat'') (get_prop payload ''exp''))"
  using assms(3,4)
  by (simp add: verifyCredential_def split_wire_format [OF assms(1,2)])





subsection \<open>The round trip over a non-empty claim set\<close>

lemma put_claim_fresh: "k \<notin> fst ` set kvs \<Longrightarrow> put_claim kvs k v = kvs @ [(k, v)]"
  by (induction kvs) auto

lemma createDisclosures_loop_arrays:
  "createDisclosures_loop env i rest =
     map (\<lambda>d. (encode_disclosure env d, sha256_base64url env (encode_disclosure env d)))
       (disclosure_arrays env i rest)"
  by (induction env i rest rule: createDisclosures_loop.induct) (simp_all add: Let_def)

lemma retained_all:
  "retained_disclosures env (\<lambda>k. True) i rest = map fst (createDisclosures_loop env i rest)"
  by (induction env i rest rule: createDisclosures_loop.induct) (simp_all add: Let_def)

lemma retained_subset:
  "set (retained_disclosures env keep i rest)
     \<subseteq> encode_disclosure env ` set (disclosure_arrays env i rest)"
  by (induction env i rest rule: disclosure_arrays.induct) auto

lemma decode_retained:
  assumes sd: "get_prop payload ''_sd'' = Some (JArr sd)"
    and listed: "\<forall>d \<in> set (disclosure_arrays env i rest).
                   JStr (sha256_base64url env (encode_disclosure env d)) \<in> set sd"
    and codec: "\<forall>d \<in> set (disclosure_arrays env i rest).
                  decode_disclosure env (encode_disclosure env d) = Inr d"
    and keys: "distinct (map fst rest)" "''__proto__'' \<notin> fst ` set rest"
              "fst ` set rest \<inter> fst ` set acc = {}"
  shows "decode_disclosures env payload (retained_disclosures env keep i rest) (std, acc) =
           Inr (std, acc @ revealed (filter (\<lambda>kv. keep (fst kv)) rest))"
  using listed codec keys
proof (induction rest arbitrary: i acc)
  case Nil
  then show ?case by (simp add: revealed_def)
next
  case (Cons kv rest)
  obtain k v where kv: "kv = (k, v)" by (cases kv)
  let ?d = "JArr [JStr (random_salt env i), JStr k, v]"
  have l': "\<forall>d \<in> set (disclosure_arrays env (Suc i) rest).
              JStr (sha256_base64url env (encode_disclosure env d)) \<in> set sd"
    and c': "\<forall>d \<in> set (disclosure_arrays env (Suc i) rest).
              decode_disclosure env (encode_disclosure env d) = Inr d"
    using Cons.prems(1,2) kv by simp_all
  have d': "distinct (map fst rest)" and p': "''__proto__'' \<notin> fst ` set rest"
    using Cons.prems(3,4) by simp_all
  have knew: "k \<notin> fst ` set acc" and kp: "k \<noteq> ''__proto__''" and krest: "k \<notin> fst ` set rest"
    using Cons.prems(3,4,5) kv by auto
  show ?case
  proof (cases "keep k")
    case True
    have dis: "fst ` set rest \<inter> fst ` set (acc @ [(k, Some v)]) = {}"
      using Cons.prems(5) krest by auto
    have listed_d: "JStr (sha256_base64url env (encode_disclosure env ?d)) \<in> set sd"
      and codec_d: "decode_disclosure env (encode_disclosure env ?d) = Inr ?d"
      using Cons.prems(1,2) kv by simp_all
    have step: "decode_disclosures env payload
                  (retained_disclosures env keep i (kv # rest)) (std, acc)
                = decode_disclosures env payload
                    (retained_disclosures env keep (Suc i) rest) (std, acc @ [(k, Some v)])"
      using True listed_d codec_d sd kp knew
      by (simp add: kv nth_opt_def claims_assign_def put_claim_fresh)
    show ?thesis
      unfolding step Cons.IH [OF l' c' d' p' dis]
      using True by (simp add: kv revealed_def)
  next
    case False
    have dis: "fst ` set rest \<inter> fst ` set acc = {}"
      using Cons.prems(5) by auto
    show ?thesis
      using False Cons.IH [OF l' c' d' p' dis] by (simp add: kv)
  qed
qed

lemma destructure3_clock: "destructure3 (env\<lparr>now_s := t\<rparr>) v = destructure3 env v"
  by (cases v) simp_all

lemma js_to_string_clock: "js_to_string (env\<lparr>now_s := t\<rparr>) v = js_to_string env v"
proof (induction v)
  case (JArr xs)
  have eq: "map (\<lambda>x. if x = JNull then [] else js_to_string (env\<lparr>now_s := t\<rparr>) x) xs =
        map (\<lambda>x. if x = JNull then [] else js_to_string env x) xs"
    by (rule map_cong [OF refl]) (simp add: JArr.IH)
  show ?case by (simp only: js_to_string.simps eq)
qed simp_all

lemma to_property_key_clock: "to_property_key (env\<lparr>now_s := t\<rparr>) key = to_property_key env key"
  by (cases key) (simp_all add: js_to_string_clock)

lemma decode_disclosures_clock:
  "decode_disclosures (env\<lparr>now_s := t\<rparr>) payload ds c = decode_disclosures env payload ds c"
proof (induction ds arbitrary: c)
  case Nil
  then show ?case by simp
next
  case (Cons d ds)
  then show ?case
    by (simp add: destructure3_clock to_property_key_clock split: sum.splits prod.splits)
qed

text \<open>
  Apart from the empty claim set, the round trip of C2 holds. For claims with distinct names
  other than \<open>__proto__\<close>, a codec that decodes what it encoded into text without the
  delimiter, and an envelope that \<open>jwtVerify\<close> accepts for the issuer's key, at any time
  \<open>t\<close> before the expiry of the credential (from its \<open>exp\<close> on, \<open>jwtVerify\<close> rejects the
  envelope): the credential issued over the claims verifies and reveals exactly the claims;
  and the credential presented with only the disclosures of the kept names verifies and
  reveals exactly the kept claims.
\<close>

lemma issue_verify_roundtrip:
  assumes env_ok: "issuer_key_error env = None" "hpk \<noteq> JNull"
    and keys: "distinct (map fst claims)" "''__proto__'' \<notin> fst ` set claims"
    and payload: "payload = credential_payload env hpk sid
                              (map snd (createDisclosures_loop env 0 claims))"
    and sign: "sign_jwt env payload = Inr jwt" "CHR ''~'' \<notin> set jwt"
              "verify_jwt env pk jwt = Inr payload"
    and ttl: "t < now_s env + DERIVED_VC_TTL env"
    and codec: "\<forall>d \<in> set (disclosure_arrays env 0 claims).
                  decode_disclosure env (encode_disclosure env d) = Inr d \<and>
                  CHR ''~'' \<notin> set (encode_disclosure env d)"
  shows "claims \<noteq> [] \<longrightarrow>
           (\<exists>cred. issueCredential env hpk sid (JObj claims) = Inr cred \<and>
                   verifyCredential (env\<lparr>now_s := t\<rparr>) (sdJwt cred) pk =
                     Verified (revealed claims) (Some hpk)
                       (Some (JStr (''http://localhost:'' @ ISSUER_PORT env)))
                       (Some (JNum (now_s env)))
                       (Some (JNum (now_s env + DERIVED_VC_TTL env))))"
    and "verifyCredential (env\<lparr>now_s := t\<rparr>)
           (wire_format jwt (retained_disclosures env keep 0 claims)) pk =
           Verified (revealed (filter (\<lambda>kv. keep (fst kv)) claims)) (Some hpk)
             (Some (JStr (''http://localhost:'' @ ISSUER_PORT env)))
             (Some (JNum (now_s env)))
             (Some (JNum (now_s env + DERIVED_VC_TTL env)))"
proof -
  let ?digests = "map snd (createDisclosures_loop env 0 claims)"
  let ?later = "env\<lparr>now_s := t\<rparr>"
  have sd: "get_prop payload ''_sd'' = Some (JArr (map JStr ?digests))"
    by (simp add: payload credential_payload_def)
  have fields: "opt_prop (get_prop payload ''cnf'') ''jwk'' = Some hpk"
    "get_prop payload ''iss'' = Some (JStr (''http://localhost:'' @ ISSUER_PORT env))"
    "get_prop payload ''iat'' = Some (JNum (now_s env))"
    "get_prop payload ''exp'' = Some (JNum (now_s env + DERIVED_VC_TTL env))"
    by (simp_all add: payload credential_payload_def)
  have fresh: "\<not> credential_expired (get_prop payload ''exp'') (now_s ?later)"
    using ttl by (simp add: fields)
  have accepted: "verify_jwt ?later pk jwt = Inr payload"
    using sign(3) by simp
  have listed: "\<forall>d \<in> set (disclosure_arrays env 0 claims).
                  JStr (sha256_base64url env (encode_disclosure env d)) \<in> set (map JStr ?digests)"
    by (auto simp: createDisclosures_loop_arrays)
  have dec: "\<forall>d \<in> set (disclosure_arrays env 0 claims).
               decode_disclosure env (encode_disclosure env d) = Inr d"
    using codec by blast
  have loop: "decode_disclosures ?later payload (retained_disclosures env keep' 0 claims)
                (True, [])
              = Inr (True, revealed (filter (\<lambda>kv. keep' (fst kv)) claims))" for keep'
    unfolding decode_disclosures_clock
    using decode_retained [OF sd listed dec keys, of "[]" keep' True] by simp
  have sep: "\<forall>s \<in> set (retained_disclosures env keep' 0 claims). CHR ''~'' \<notin> set s" for keep'
    using retained_subset [of env keep' 0 claims] codec by blast
  have presented: "verifyCredential ?later
                     (wire_format jwt (retained_disclosures env keep' 0 claims)) pk
        = Verified (revealed (filter (\<lambda>kv. keep' (fst kv)) claims)) (Some hpk)
             (Some (JStr (''http://localhost:'' @ ISSUER_PORT env)))
             (Some (JNum (now_s env)))
             (Some (JNum (now_s env + DERIVED_VC_TTL env)))" for keep'
    by (simp add: verifyCredential_wire_format [OF sign(2) sep accepted fresh] loop fields)
  show "verifyCredential ?later (wire_format jwt (retained_disclosures env keep 0 claims)) pk =
           Verified (revealed (filter (\<lambda>kv. keep (fst kv)) claims)) (Some hpk)
             (Some (JStr (''http://localhost:'' @ ISSUER_PORT env)))
             (Some (JNum (now_s env)))
             (Some (JNum (now_s env + DERIVED_VC_TTL env)))"
    by (rule presented)
  show "claims \<noteq> [] \<longrightarrow>
           (\<exists>cred. issueCredential env hpk sid (JObj claims) = Inr cred \<and>
                   verifyCredential ?later (sdJwt cred) pk =
                     Verified (revealed claims) (Some hpk)
                       (Some (JStr (''http://localhost:'' @ ISSUER_PORT env)))
                       (Some (JNum (now_s env)))
                       (Some (JNum (now_s env + DERIVED_VC_TTL env))))"
  proof
    assume ne: "claims \<noteq> []"
    let ?ds = "map fst (createDisclosures_loop env 0 claims)"
    have ds_ne: "?ds \<noteq> []" using ne by (cases claims) (auto simp: Let_def)
    have wf: "jwt @ ''~'' @ join_with CHR ''~'' ?ds @ ''~'' = wire_format jwt ?ds"
      using join_with_trailing [OF ds_ne, of "CHR ''~''"] by (simp add: wire_format_def)
    have issue: "issueCredential env hpk sid (JObj claims) =
                   Inr \<lparr> sdJwt = wire_format jwt ?ds, disclosures = ?ds,
                         format = ''vc+sd-jwt'' \<rparr>"
      using env_ok sign(1) wf
      by (simp add: issueCredential_def createDisclosures_def Let_def payload)
    have "verifyCredential ?later (wire_format jwt ?ds) pk =
            Verified (revealed claims) (Some hpk)
              (Some (JStr (''http://localhost:'' @ ISSUER_PORT env)))
              (Some (JNum (now_s env)))
              (Some (JNum (now_s env + DERIVED_VC_TTL env)))"
      using presented [of "\<lambda>k. True"] by (simp add: retained_all)
    with issue show "\<exists>cred. issueCredential env hpk sid (JObj claims) = Inr cred \<and>
                   verifyCredential ?later (sdJwt cred) pk =
                     Verified (revealed claims) (Some hpk)
                       (Some (JStr (''http://localhost:'' @ ISSUER_PORT env)))
                       (Some (JNum (now_s env)))
                       (Some (JNum (now_s env + DERIVED_VC_TTL env)))"
      by simp
  qed
qed

lemma issue_verify_roundtrip_example:
  "verifyCredential
     ((fixture_issuer_env
         (credential_payload (fixture_issuer_env JNull) holder_key (JStr ''s1'')
            [''sha256-WyJzYWx0MCIsIm92ZXIyMSIsdHJ1ZV0'',
             ''sha256-WyJzYWx0MSIsIm5vdEV4cGlyZWQiLHRydWVd'']))
        \<lparr> now_s := 1700086399 \<rparr>)
     ''eyJhbGciOiJFUzI1NiJ9.e30.c2ln~WyJzYWx0MSIsIm5vdEV4cGlyZWQiLHRydWVd~'' JNull
   = Verified [(''notExpired'', Some (JBool True))] (Some holder_key)
       (Some (JStr ''http://localhost:3001'')) (Some (JNum 1700000000))
       (Some (JNum 1700086400))"
proof -
  let ?claims = "[(''over21'', JBool True), (''notExpired'', JBool True)]"
  let ?payload = "credential_payload (fixture_issuer_env JNull) holder_key (JStr ''s1'')
            [''sha256-WyJzYWx0MCIsIm92ZXIyMSIsdHJ1ZV0'',
             ''sha256-WyJzYWx0MSIsIm5vdEV4cGlyZWQiLHRydWVd'']"
  let ?env = "fixture_issuer_env ?payload"
  have h1: "issuer_key_error ?env = None" by (simp add: fixture_issuer_env_def)
  have h2: "holder_key \<noteq> JNull" by (simp add: holder_key_def)
  have h3: "distinct (map fst ?claims)" by simp
  have h4: "''__proto__'' \<notin> fst ` set ?claims" by simp
  have h5: "?payload = credential_payload ?env holder_key (JStr ''s1'')
                         (map snd (createDisclosures_loop ?env 0 ?claims))"
    by (simp add: credential_payload_def fixture_issuer_env_def fixture_encode_def Let_def
        show_nat.simps)
  have h6: "sign_jwt ?env ?payload = Inr ''eyJhbGciOiJFUzI1NiJ9.e30.c2ln''"
    by (simp add: fixture_issuer_env_def)
  have h7: "CHR ''~'' \<notin> set ''eyJhbGciOiJFUzI1NiJ9.e30.c2ln''" by simp
  have h8: "verify_jwt ?env JNull ''eyJhbGciOiJFUzI1NiJ9.e30.c2ln'' = Inr ?payload"
    by (simp add: fixture_issuer_env_def)
  have h9: "(1700086399::int) < now_s ?env + DERIVED_VC_TTL ?env"
    by (simp add: fixture_issuer_env_def)
  have h10: "\<forall>d \<in> set (disclosure_arrays ?env 0 ?claims).
               decode_disclosure ?env (encode_disclosure ?env d) = Inr d \<and>
               CHR ''~'' \<notin> set (encode_disclosure ?env d)"
    by (simp add: fixture_issuer_env_def fixture_encode_def fixture_decode_def show_nat.simps)
  have r: "retained_disclosures ?env (\<lambda>k. k = ''notExpired'') 0 ?claims
           = [''WyJzYWx0MSIsIm5vdEV4cGlyZWQiLHRydWVd'']"
    by (simp add: fixture_issuer_env_def fixture_encode_def show_nat.simps)
  from issue_verify_roundtrip(2)
         [OF h1 h2 h3 h4 h5 h6 h7 h8 h9 h10, of "\<lambda>k. k = ''notExpired''"]
  show ?thesis
    unfolding r by (simp add: wire_format_def revealed_def fixture_issuer_env_def)
qed

subsection \<open>Issuing over an empty claim set\<close>

text \<open>
  C2 fails on the empty claim set. Joining no disclosures gives the empty text, so the
  issuer emits \<open><JWT>~~\<close>; the verifier takes the empty text between the two delimiters for
  a disclosure, and \<open>JSON.parse\<close> throws on it: the credential the issuer has just issued
  verifies at no time \<open>t\<close>, and before its expiry the verdict carries the parser's message.
\<close>

theorem issue_verify_empty_claims:
  assumes "issuer_key_error env = None" and "holderPublicKey \<noteq> JNull"
    and "sign_jwt env (credential_payload env holderPublicKey sid []) = Inr jwt"
    and "CHR ''~'' \<notin> set jwt"
    and "verify_jwt env pk jwt = Inr (credential_payload env holderPublicKey sid [])"
    and "decode_disclosure env [] = Inl e"
  shows "issueCredential env holderPublicKey sid (JObj []) =
           Inr \<lparr> sdJwt = jwt @ ''~~'', disclosures = [], format = ''vc+sd-jwt'' \<rparr>
       \<and> (\<exists>reason. verifyCredential (env\<lparr>now_s := t\<rparr>) (jwt @ ''~~'') pk = Invalid reason)
       \<and> (t \<le> now_s env + DERIVED_VC_TTL env \<longrightarrow>
            verifyCredential (env\<lparr>now_s := t\<rparr>) (jwt @ ''~~'') pk = Invalid (message e))"
proof -
  let ?payload = "credential_payload env holderPublicKey sid []"
  have issue: "issueCredential env holderPublicKey sid (JObj []) =
           Inr \<lparr> sdJwt = jwt @ ''~~'', disclosures = [], format = ''vc+sd-jwt'' \<rparr>"
    using assms(1,2,3) by (simp add: issueCredential_def createDisclosures_def)
  have parts: "split_on CHR ''~'' (jwt @ ''~~'') = [jwt, [], []]"
    using split_on_segment [OF assms(4), of "''~''"] by simp
  have verdict: "verifyCredential (env\<lparr>now_s := t\<rparr>) (jwt @ ''~~'') pk =
                   (if credential_expired (get_prop ?payload ''exp'') t
                    then Invalid ''Credential expired'' else Invalid (message e))"
    using assms(5,6) by (simp add: verifyCredential_def parts)
  have "t \<le> now_s env + DERIVED_VC_TTL env
          \<longrightarrow> \<not> credential_expired (get_prop ?payload ''exp'') t"
    by (simp add: credential_payload_def)
  with issue verdict show ?thesis by simp
qed

theorem issue_verify_empty_claims_witness:
  "issueCredential
     (fixture_issuer_env (credential_payload (fixture_issuer_env JNull) holder_key (JStr ''s1'') []))
     holder_key (JStr ''s1'') (JObj [])
   = Inr \<lparr> sdJwt = ''eyJhbGciOiJFUzI1NiJ9.e30.c2ln~~'', disclosures = [],
           format = ''vc+sd-jwt'' \<rparr>
   \<and> verifyCredential
     ((fixture_issuer_env
         (credential_payload (fixture_issuer_env JNull) holder_key (JStr ''s1'') []))
        \<lparr> now_s := 1700000060 \<rparr>)
     ''eyJhbGciOiJFUzI1NiJ9.e30.c2ln~~'' JNull
   = Invalid ''Unexpected end of JSON input''"
proof -
  let ?env = "fixture_issuer_env
                (credential_payload (fixture_issuer_env JNull) holder_key (JStr ''s1'') [])"
  have p: "credential_payload ?env holder_key (JStr ''s1'') [] =
           credential_payload (fixture_issuer_env JNull) holder_key (JStr ''s1'') []"
    by (simp add: credential_payload_def fixture_issuer_env_def)
  have h1: "issuer_key_error ?env = None" by (simp add: fixture_issuer_env_def)
  have h2: "holder_key \<noteq> JNull" by (simp add: holder_key_def)
  have h3: "sign_jwt ?env (credential_payload ?env holder_key (JStr ''s1'') [])
            = Inr ''eyJhbGciOiJFUzI1NiJ9.e30.c2ln''"
    by (simp add: fixture_issuer_env_def)
  have h4: "CHR ''~'' \<notin> set ''eyJhbGciOiJFUzI1NiJ9.e30.c2ln''" by simp
  have h5: "verify_jwt ?env JNull ''eyJhbGciOiJFUzI1NiJ9.e30.c2ln''
            = Inr (credential_payload ?env holder_key (JStr ''s1'') [])"
    unfolding p by (simp add: fixture_issuer_env_def)
  have h6: "decode_disclosure ?env [] = Inl (SyntaxError ''Unexpected end of JSON input'')"
    by (simp add: fixture_issuer_env_def fixture_decode_def)
  have h7: "(1700000060::int) \<le> now_s ?env + DERIVED_VC_TTL ?env"
    by (simp add: fixture_issuer_env_def)
  from issue_verify_empty_claims [OF h1 h2 h3 h4 h5 h6, of 1700000060] h7
  show ?thesis by simp
qed

section \<open>Properties of issuance sessions\<close>

subsection \<open>The token endpoint\<close>

lemma get_prop_token_request:
  "get_prop (token_request c) ''grant_type'' = Some (JStr ''authorization_code'')"
  "get_prop (token_request c) ''code'' = Some (JStr c)"
  by (simp_all add: token_request_def)

lemma token_response_not_invalid_grant: "token_response u n \<noteq> invalid_grant"
  by (simp add: token_response_def invalid_grant_def error_response_def)

lemma token_found:
  assumes "get_prop body ''grant_type'' = Some (JStr ''authorization_code'')"
    and "sessions_get st (get_prop body ''code'') = Some ref"
  shows "token st u n body =
           (token_response u n,
            st \<lparr> heap := (heap st)(ref := (heap st ref) \<lparr> session_accessToken := Some u \<rparr>),
                 sessions := (sessions st)(u \<mapsto> ref) \<rparr>)"
  using assms by (simp add: token_def)

lemma token_not_found:
  assumes "get_prop body ''grant_type'' = Some (JStr ''authorization_code'')"
    and "sessions_get st (get_prop body ''code'') = None"
  shows "token st u n body = (invalid_grant, st)"
  using assms by (simp add: token_def)

lemma token_by_key:
  assumes "sessions st k = Some ref"
  shows "token st u n (token_request k) =
           (token_response u n,
            st \<lparr> heap := (heap st)(ref := (heap st ref) \<lparr> session_accessToken := Some u \<rparr>),
                 sessions := (sessions st)(u \<mapsto> ref) \<rparr>)"
  using assms by (simp add: token_found get_prop_token_request)


text \<open>
  C10. With the grant type \<open>authorization_code\<close>, the token call fails with \<open>invalid_grant\<close>
  exactly when the supplied code is not a key of the session map. Any key is accepted: the
  call stores the session under the fresh access token in the same map, so that access
  token, presented as the code of a further token call, is itself accepted and mints
  another access token for the same session.
\<close>

theorem token_accepts_any_session_key:
  assumes "get_prop body ''grant_type'' = Some (JStr ''authorization_code'')"
  shows "(fst (token st u n body) = invalid_grant
            \<longleftrightarrow> sessions_get st (get_prop body ''code'') = None)
       \<and> (\<forall>ref. sessions_get st (get_prop body ''code'') = Some ref \<longrightarrow>
             fst (token st u n body) = token_response u n \<and>
             sessions (snd (token st u n body)) = (sessions st)(u \<mapsto> ref) \<and>
             heap (snd (token st u n body)) =
               (heap st)(ref := (heap st ref) \<lparr> session_accessToken := Some u \<rparr>) \<and>
             (\<forall>u' n'.
                fst (token (snd (token st u n body)) u' n' (token_request u))
                  = token_response u' n' \<and>
                sessions (snd (token (snd (token st u n body)) u' n' (token_request u))) u'
                  = Some ref))"
proof (cases "sessions_get st (get_prop body ''code'')")
  case None
  then show ?thesis using token_not_found [OF assms None] by simp
next
  case (Some ref)
  let ?st1 = "snd (token st u n body)"
  have t1: "token st u n body =
           (token_response u n,
            st \<lparr> heap := (heap st)(ref := (heap st ref) \<lparr> session_accessToken := Some u \<rparr>),
                 sessions := (sessions st)(u \<mapsto> ref) \<rparr>)"
    by (rule token_found [OF assms Some])
  then have key: "sessions ?st1 u = Some ref" by simp
  have "fst (token ?st1 u' n' (token_request u)) = token_response u' n' \<and>
        sessions (snd (token ?st1 u' n' (token_request u))) u' = Some ref" for u' n'
    by (simp add: token_by_key [OF key])
  with t1 Some show ?thesis
    by (simp add: token_response_not_invalid_grant)
qed

theorem token_accepts_any_session_key_witness:
  "fst (token (snd (authorize initial_state 0 ''2024-01-15T10:30:00.000Z'' ''code-1''
                      authorize_request))
          ''token-1'' ''nonce-1'' (token_request ''code-1''))
     = token_response ''token-1'' ''nonce-1''
   \<and> fst (token (snd (token (snd (authorize initial_state 0 ''2024-01-15T10:30:00.000Z''
                                     ''code-1'' authorize_request))
                         ''token-1'' ''nonce-1'' (token_request ''code-1'')))
            ''token-2'' ''nonce-2'' (token_request ''token-1''))
     = token_response ''token-2'' ''nonce-2''
   \<and> fst (token (snd (authorize initial_state 0 ''2024-01-15T10:30:00.000Z'' ''code-1''
                        authorize_request))
            ''token-1'' ''nonce-1'' (token_request ''code-9''))
     = invalid_grant"
proof -
  let ?st1 = "snd (authorize initial_state 0 ''2024-01-15T10:30:00.000Z'' ''code-1''
                     authorize_request)"
  have s: "sessions_get ?st1 (get_prop (token_request ''code-1'') ''code'') = Some 0"
    "sessions_get ?st1 (get_prop (token_request ''code-9'') ''code'') = None"
    by (simp_all add: authorize_def authorize_request_def initial_state_def holder_key_def
        token_request_def)
  from token_accepts_any_session_key
         [OF get_prop_token_request(1), of ?st1 "''token-1''" "''nonce-1''" "''code-1''"]
       token_accepts_any_session_key
         [OF get_prop_token_request(1), of ?st1 "''token-1''" "''nonce-1''" "''code-9''"]
       s
  show ?thesis by simp
qed

text \<open>
  C4, as amended. An authorization code is not consumed by its exchange: a token call
  presenting a code that is a key of the session map succeeds, and so does a second token
  call with the same code. The second call mints a second access token for the same
  session; the session's \<open>accessToken\<close> field then holds the second token, and the code
  and both tokens remain keys of the session.
\<close>

theorem authorization_code_reusable:
  assumes "sessions st c = Some ref"
  shows "fst (token st u1 n1 (token_request c)) = token_response u1 n1
       \<and> fst (token (snd (token st u1 n1 (token_request c))) u2 n2 (token_request c))
           = token_response u2 n2
       \<and> sessions (snd (token (snd (token st u1 n1 (token_request c))) u2 n2 (token_request c)))
           = (sessions st)(u1 \<mapsto> ref, u2 \<mapsto> ref)
       \<and> session_accessToken
           (heap (snd (token (snd (token st u1 n1 (token_request c))) u2 n2 (token_request c)))
              ref) = Some u2"
proof -
  let ?st1 = "snd (token st u1 n1 (token_request c))"
  have t1: "token st u1 n1 (token_request c) =
           (token_response u1 n1,
            st \<lparr> heap := (heap st)(ref := (heap st ref) \<lparr> session_accessToken := Some u1 \<rparr>),
                 sessions := (sessions st)(u1 \<mapsto> ref) \<rparr>)"
    by (rule token_by_key [OF assms])
  then have key: "sessions ?st1 c = Some ref" using assms by simp
  have t2: "token ?st1 u2 n2 (token_request c) =
           (token_response u2 n2,
            ?st1 \<lparr> heap := (heap ?st1)
                     (ref := (heap ?st1 ref) \<lparr> session_accessToken := Some u2 \<rparr>),
                   sessions := (sessions ?st1)(u2 \<mapsto> ref) \<rparr>)"
    by (rule token_by_key [OF key])
  show ?thesis
    unfolding t2 by (simp add: t1)
qed

theorem authorization_code_reusable_witness:
  "sessions (snd (token (snd (token (snd (authorize initial_state 0 ''2024-01-15T10:30:00.000Z''
                                            ''code-1'' authorize_request))
                                ''token-1'' ''nonce-1'' (token_request ''code-1'')))
                   ''token-2'' ''nonce-2'' (token_request ''code-1'')))
     = [''code-1'' \<mapsto> 0, ''token-1'' \<mapsto> 0, ''token-2'' \<mapsto> 0]"
proof -
  let ?st1 = "snd (authorize initial_state 0 ''2024-01-15T10:30:00.000Z'' ''code-1''
                     authorize_request)"
  have s: "sessions ?st1 = [''code-1'' \<mapsto> 0]"
    by (simp add: authorize_def authorize_request_def initial_state_def holder_key_def)
  then have "sessions ?st1 ''code-1'' = Some 0" by simp
  from authorization_code_reusable [OF this, of "''token-1''" "''nonce-1''" "''token-2''" "''nonce-2''"]
  show ?thesis by (simp add: s)
qed

lemmas eval_sessions =
  authorize_def token_def credential_def fire_timers_def timer_due_def initial_state_def
  authorize_request_def token_request_def token_response_def invalid_grant_def invalid_token_def
  error_response_def credential_claims_def holder_key_def Let_def

text \<open>
  C4 as stated fails: in a fresh process, after \<open>authorize\<close> and one successful exchange of
  the code, a second token call with the same code two seconds later is answered with a
  new access token.
\<close>

theorem second_exchange_succeeds:
  "fst (token
          (fire_timers 2000
             (snd (token
                     (fire_timers 1000
                        (snd (authorize initial_state 0 ''2024-01-15T10:30:00.000Z'' ''code-1''
                                authorize_request)))
                     ''token-1'' ''nonce-1'' (token_request ''code-1''))))
          ''token-2'' ''nonce-2'' (token_request ''code-1''))
   = Response 200 (JObj [(''access_token'', JStr ''token-2''),
                         (''token_type'', JStr ''bearer''),
                         (''expires_in'', JNum 3600),
                         (''c_nonce'', JStr ''nonce-2''),
                         (''c_nonce_expires_in'', JNum 300)])"
  by (simp add: eval_sessions)

subsection \<open>Expiry\<close>











end
